theory Spec2Isabelle
  imports Main
begin

section \<open>Python values\<close>

text \<open>A Python \<open>str\<close> is modelled as a \<open>string\<close>; each \<open>char\<close> stands for one code
  point below 256, and \<open>ord\<close> is Python's \<open>ord\<close>. Exceptions and \<open>sys.exit\<close> are values
  of \<open>error\<close>: \<open>SysExit\<close> carries the fixed head of the message the source prints,
  \<open>PyException\<close> the name of the uncaught exception class.\<close>

datatype error = SysExit string | PyException string

definition ord :: "char \<Rightarrow> nat" where
  "ord c = of_char c"

definition backslash :: char where
  "backslash = char_of (92::nat)"

definition newline :: char where
  "newline = char_of (10::nat)"

text \<open>\<open>str.isspace\<close> on one character; the regular expression class \<open>\s\<close> agrees with it.\<close>

definition py_isspace :: "char \<Rightarrow> bool" where
  "py_isspace c = (let n = ord c in
     (9 \<le> n \<and> n \<le> 13) \<or> (28 \<le> n \<and> n \<le> 32) \<or> n = 133 \<or> n = 160)"

text \<open>The decimal digits \<open>0\<close>..\<open>9\<close> (the class \<open>\d\<close> below code point 256), and
  \<open>str.isdigit\<close>, which also accepts the superscript digits.\<close>

definition is_decimal :: "char \<Rightarrow> bool" where
  "is_decimal c = (let n = ord c in 48 \<le> n \<and> n \<le> 57)"

definition is_digit_char :: "char \<Rightarrow> bool" where
  "is_digit_char c = (let n = ord c in (48 \<le> n \<and> n \<le> 57) \<or> n = 178 \<or> n = 179 \<or> n = 185)"

definition py_isdigit :: "string \<Rightarrow> bool" where
  "py_isdigit s = (s \<noteq> [] \<and> list_all is_digit_char s)"

definition py_strip :: "string \<Rightarrow> string" where
  "py_strip s = rev (dropWhile py_isspace (rev (dropWhile py_isspace s)))"

text \<open>\<open>str.split()\<close> without arguments: the maximal runs of non-whitespace.\<close>

fun split_acc :: "string \<Rightarrow> string \<Rightarrow> string list" where
  "split_acc w [] = (if w = [] then [] else [w])"
| "split_acc w (c # s) =
     (if py_isspace c then (if w = [] then split_acc [] s else w # split_acc [] s)
      else split_acc (w @ [c]) s)"

definition py_split :: "string \<Rightarrow> string list" where
  "py_split s = split_acc [] s"

text \<open>\<open>sep.join(xs)\<close>.\<close>

fun py_join :: "string \<Rightarrow> string list \<Rightarrow> string" where
  "py_join sep [] = []"
| "py_join sep [x] = x"
| "py_join sep (x # y # ys) = x @ sep @ py_join sep (y # ys)"

text \<open>Slices \<open>xs[a:b]\<close>, \<open>xs[a:]\<close> with Python's clamping and negative indices.\<close>

definition slice_index :: "int \<Rightarrow> nat \<Rightarrow> nat" where
  "slice_index i n = (if i < 0 then nat (max 0 (int n + i)) else min (nat i) n)"

definition py_slice :: "'a list \<Rightarrow> int \<Rightarrow> int \<Rightarrow> 'a list" where
  "py_slice xs a b =
     (let lo = slice_index a (length xs); hi = slice_index b (length xs)
      in take (hi - lo) (drop lo xs))"

definition py_slice_from :: "'a list \<Rightarrow> int \<Rightarrow> 'a list" where
  "py_slice_from xs a = drop (slice_index a (length xs)) xs"

text \<open>\<open>s * n\<close> for a string and an integer.\<close>

definition py_times :: "string \<Rightarrow> int \<Rightarrow> string" where
  "py_times s n = concat (replicate (nat n) s)"

text \<open>\<open>str.find\<close> and \<open>str.rfind\<close>: the first and the last index of a substring, or -1.\<close>

fun starts_with :: "string \<Rightarrow> string \<Rightarrow> bool" where
  "starts_with [] s = True"
| "starts_with (p # ps) [] = False"
| "starts_with (p # ps) (c # s) = (p = c \<and> starts_with ps s)"

fun py_find :: "string \<Rightarrow> string \<Rightarrow> int" where
  "py_find [] sub = (if sub = [] then 0 else -1)"
| "py_find (c # s) sub =
     (if starts_with sub (c # s) then 0
      else (let r = py_find s sub in if r = -1 then -1 else r + 1))"

fun py_rfind :: "string \<Rightarrow> string \<Rightarrow> int" where
  "py_rfind [] sub = (if sub = [] then 0 else -1)"
| "py_rfind (c # s) sub =
     (let r = py_rfind s sub in
      if r \<noteq> -1 then r + 1
      else if starts_with sub (c # s) then 0 else -1)"

definition py_in :: "string \<Rightarrow> string \<Rightarrow> bool" where
  "py_in sub s = (py_find s sub \<noteq> -1)"

text \<open>\<open>int(s)\<close> on an optionally signed run of decimal digits; anything else raises
  \<open>ValueError\<close>.\<close>

fun digits_val :: "int \<Rightarrow> string \<Rightarrow> int" where
  "digits_val acc [] = acc"
| "digits_val acc (c # s) = digits_val (10 * acc + (int (ord c) - 48)) s"

definition py_int :: "string \<Rightarrow> error + int" where
  "py_int s0 =
     (let s = py_strip s0;
          neg = (s \<noteq> [] \<and> hd s = CHR ''-'');
          body = (if s \<noteq> [] \<and> (hd s = CHR ''-'' \<or> hd s = CHR ''+'') then tl s else s)
      in if body \<noteq> [] \<and> list_all is_decimal body
         then Inr (if neg then - digits_val 0 body else digits_val 0 body)
         else Inl (PyException ''ValueError''))"

text \<open>Comparison of two strings with \<open><\<close>: lexicographic on code points.\<close>

fun str_less :: "string \<Rightarrow> string \<Rightarrow> bool" where
  "str_less [] [] = False"
| "str_less [] (b # bs) = True"
| "str_less (a # as) [] = False"
| "str_less (a # as) (b # bs) = (ord a < ord b \<or> (a = b \<and> str_less as bs))"

text \<open>\<open>s.encode('ascii')\<close>.\<close>

definition encode_ascii :: "string \<Rightarrow> error + string" where
  "encode_ascii s = (if list_all (\<lambda>c. ord c < 128) s then Inr s
                     else Inl (PyException ''UnicodeEncodeError''))"

text \<open>A value that is an \<open>int\<close> on some paths and a \<open>str\<close> on others.\<close>

datatype str_or_int = PStr string | PInt int

fun truthy :: "str_or_int \<Rightarrow> bool" where
  "truthy (PStr s) = (s \<noteq> [])"
| "truthy (PInt n) = (n \<noteq> 0)"

section \<open>Regular expressions\<close>

text \<open>The patterns of the source use character classes, literals, \<open>$\<close>, concatenation,
  ordered alternation, numbered groups, greedy \<open>?\<close> on any sub-pattern, and greedy or lazy
  counted repetition of one character class. \<open>rmatch\<close> is the backtracking matcher of
  Python's \<open>re\<close>: it explores the alternatives in priority order and returns the first
  that lets the continuation succeed.\<close>

datatype citem = Ch char | Rg char char | Digit | Space

fun citem_mem :: "char \<Rightarrow> citem \<Rightarrow> bool" where
  "citem_mem c (Ch d) = (c = d)"
| "citem_mem c (Rg lo hi) = (ord lo \<le> ord c \<and> ord c \<le> ord hi)"
| "citem_mem c Digit = is_decimal c"
| "citem_mem c Space = py_isspace c"

datatype cset = Cls "citem list" | AnyChar

fun cset_mem :: "char \<Rightarrow> cset \<Rightarrow> bool" where
  "cset_mem c (Cls items) = list_ex (citem_mem c) items"
| "cset_mem c AnyChar = (c \<noteq> newline)"

datatype regex =
    One cset
  | Str string
  | Dollar
  | Cat regex regex
  | Alt regex regex
  | Grp nat regex
  | Opt regex
  | Rep cset nat "nat option" bool

type_synonym caps = "(nat \<times> string) list"

text \<open>\<open>Rep cs mn mx greedy\<close>: between \<open>mn\<close> and \<open>mx\<close> characters of \<open>cs\<close>, longest first when
  greedy, shortest first when lazy.\<close>

fun rep_match :: "cset \<Rightarrow> bool \<Rightarrow> nat \<Rightarrow> nat option \<Rightarrow> string \<Rightarrow> (string \<Rightarrow> 'a option) \<Rightarrow> 'a option" where
  "rep_match cs g mn mx [] k = (if mn = 0 then k [] else None)"
| "rep_match cs g mn mx (c # s) k =
     (if 0 < mn then
        (if cset_mem c cs \<and> mx \<noteq> Some 0
         then rep_match cs g (mn - 1) (map_option (\<lambda>n. n - 1) mx) s k else None)
      else if g then
        (case (if cset_mem c cs \<and> mx \<noteq> Some 0
               then rep_match cs g 0 (map_option (\<lambda>n. n - 1) mx) s k else None) of
           Some r \<Rightarrow> Some r
         | None \<Rightarrow> k (c # s))
      else
        (case k (c # s) of
           Some r \<Rightarrow> Some r
         | None \<Rightarrow> (if cset_mem c cs \<and> mx \<noteq> Some 0
                     then rep_match cs g 0 (map_option (\<lambda>n. n - 1) mx) s k else None)))"

fun str_match :: "string \<Rightarrow> string \<Rightarrow> string option" where
  "str_match [] s = Some s"
| "str_match (p # ps) [] = None"
| "str_match (p # ps) (c # s) = (if p = c then str_match ps s else None)"

fun rmatch :: "regex \<Rightarrow> string \<Rightarrow> caps \<Rightarrow> (string \<Rightarrow> caps \<Rightarrow> caps option) \<Rightarrow> caps option" where
  "rmatch (One cs) s c k = (case s of [] \<Rightarrow> None | x # s' \<Rightarrow> if cset_mem x cs then k s' c else None)"
| "rmatch (Str p) s c k = (case str_match p s of None \<Rightarrow> None | Some s' \<Rightarrow> k s' c)"
| "rmatch Dollar s c k = (if s = [] \<or> s = [newline] then k s c else None)"
| "rmatch (Cat a b) s c k = rmatch a s c (\<lambda>s' c'. rmatch b s' c' k)"
| "rmatch (Alt a b) s c k = (case rmatch a s c k of Some r \<Rightarrow> Some r | None \<Rightarrow> rmatch b s c k)"
| "rmatch (Grp n a) s c k = rmatch a s c (\<lambda>s' c'. k s' ((n, take (length s - length s') s) # c'))"
| "rmatch (Opt a) s c k = (case rmatch a s c k of Some r \<Rightarrow> Some r | None \<Rightarrow> k s c)"
| "rmatch (Rep cs mn mx g) s c k = rep_match cs g mn mx s (\<lambda>s'. k s' c)"

fun ngroups :: "regex \<Rightarrow> nat" where
  "ngroups (Cat a b) = max (ngroups a) (ngroups b)"
| "ngroups (Alt a b) = max (ngroups a) (ngroups b)"
| "ngroups (Grp n a) = max n (ngroups a)"
| "ngroups (Opt a) = ngroups a"
| "ngroups r = 0"

text \<open>\<open>re.match(r, s)\<close> followed by \<open>.groups()\<close>: \<open>None\<close> when there is no match at the
  start of \<open>s\<close>, otherwise the text of each group, \<open>None\<close> for a group that took no part.\<close>

definition re_match :: "regex \<Rightarrow> string \<Rightarrow> string option list option" where
  "re_match r s = (case rmatch r s [] (\<lambda>s' c. Some c) of
      None \<Rightarrow> None
    | Some c \<Rightarrow> Some (map (map_of c) [1 ..< Suc (ngroups r)]))"

definition re_matches :: "regex \<Rightarrow> string \<Rightarrow> bool" where
  "re_matches r s = (re_match r s \<noteq> None)"

text \<open>\<open>re.search(r, s)\<close> as a truth value: a match starting at some position of \<open>s\<close>.\<close>

fun re_search :: "regex \<Rightarrow> string \<Rightarrow> bool" where
  "re_search r [] = re_matches r []"
| "re_search r (c # s) = (re_matches r (c # s) \<or> re_search r s)"

text \<open>\<open>re.split\<close> on a pattern that matches exactly one delimiter character.\<close>

fun split_chars_acc :: "(char \<Rightarrow> bool) \<Rightarrow> string \<Rightarrow> string \<Rightarrow> string list" where
  "split_chars_acc p w [] = [w]"
| "split_chars_acc p w (c # s) =
     (if p c then w # split_chars_acc p [] s else split_chars_acc p (w @ [c]) s)"

definition split_chars :: "(char \<Rightarrow> bool) \<Rightarrow> string \<Rightarrow> string list" where
  "split_chars p s = split_chars_acc p [] s"

subsection \<open>Pattern shorthands\<close>

definition vis :: cset where "vis = Cls [Rg CHR ''!'' CHR ''~'']"
definition dig :: cset where "dig = Cls [Digit]"
definition wsp :: cset where "wsp = Cls [Space]"
definition alnumU :: cset where "alnumU = Cls [Rg CHR ''A'' CHR ''Z'', Rg CHR ''0'' CHR ''9'']"
definition chs :: "string \<Rightarrow> cset" where "chs s = Cls (map Ch s)"

definition plus :: "cset \<Rightarrow> regex" where "plus cs = Rep cs 1 None True"
definition plusL :: "cset \<Rightarrow> regex" where "plusL cs = Rep cs 1 None False"
definition star :: "cset \<Rightarrow> regex" where "star cs = Rep cs 0 None True"
definition starL :: "cset \<Rightarrow> regex" where "starL cs = Rep cs 0 None False"
definition opt1 :: "cset \<Rightarrow> regex" where "opt1 cs = Rep cs 0 (Some 1) True"
definition times :: "nat \<Rightarrow> cset \<Rightarrow> regex" where "times n cs = Rep cs n (Some n) True"

fun seq :: "regex list \<Rightarrow> regex" where
  "seq [] = Str []"
| "seq [r] = r"
| "seq (r # rs) = Cat r (seq rs)"

fun alts :: "regex list \<Rightarrow> regex" where
  "alts [] = Str []"
| "alts [r] = r"
| "alts (r # rs) = Alt r (alts rs)"

text \<open>\<open>(\s+|$)\<close>, \<open>(:|_)\<close>, \<open>(\d+)\<close>, \<open>(-?\d+)\<close>, \<open>(/|\\)\<close> as group \<open>n\<close>.\<close>

definition endSep :: "nat \<Rightarrow> regex" where "endSep n = Grp n (Alt (plus wsp) Dollar)"
definition sepCU :: "nat \<Rightarrow> regex" where "sepCU n = Grp n (Alt (Str '':'') (Str ''_''))"
definition lit :: "nat \<Rightarrow> string \<Rightarrow> regex" where "lit n s = Grp n (Str s)"
definition num :: "nat \<Rightarrow> regex" where "num n = Grp n (plus dig)"
definition snum :: "nat \<Rightarrow> regex" where "snum n = Grp n (Cat (opt1 (chs ''-'')) (plus dig))"
definition slash :: "nat \<Rightarrow> regex" where "slash n = Grp n (Alt (Str ''/'') (Str [backslash]))"
definition atgt :: regex where "atgt = One (chs ''@>'')"

subsection \<open>The patterns compiled in \<open>Defline.__init__\<close>\<close>

text \<open>\<open>@([!-~]+?)(:|_)(\d+)(:|_)(\d+)(:|_)(\d+)(:|_)(\d+)(\s+|[_\|])([12345]):([NY]):(\d+|O):?([!-~]*?)(\s+|$)\<close>\<close>

definition illuminaNew_re :: regex where
  "illuminaNew_re = seq [Str ''@'', Grp 1 (plusL vis), sepCU 2, num 3, sepCU 4, num 5, sepCU 6,
     num 7, sepCU 8, num 9, Grp 10 (Alt (plus wsp) (One (chs ''_|''))),
     Grp 11 (One (chs ''12345'')), Str '':'', Grp 12 (One (chs ''NY'')), Str '':'',
     Grp 13 (Alt (plus dig) (Str ''O'')), opt1 (chs '':''), Grp 14 (starL vis), endSep 15]"

text \<open>\<open>@([!-~]*?)(:?)(\d+)(:|_)(\d+)(:|_)(\d+)(:|_)(\d+)(\s+|_)([12345]):([NY]):(\d+|O):?([!-~]*?)(\s+|$)\<close>\<close>

definition illuminaNewNoPrefix_re :: regex where
  "illuminaNewNoPrefix_re = seq [Str ''@'', Grp 1 (starL vis), Grp 2 (opt1 (chs '':'')), num 3,
     sepCU 4, num 5, sepCU 6, num 7, sepCU 8, num 9, Grp 10 (Alt (plus wsp) (Str ''_'')),
     Grp 11 (One (chs ''12345'')), Str '':'', Grp 12 (One (chs ''NY'')), Str '':'',
     Grp 13 (Alt (plus dig) (Str ''O'')), opt1 (chs '':''), Grp 14 (starL vis), endSep 15]"

text \<open>\<open>@([!-~]+?)(:|_)(\d+)(:|_)(\d+)(:|_)(\d+)(:|_)(\d+)([!-~]+?\s*)([12345]):([NY]):(\d+|O):?([!-~]*?)(\s+|$)\<close>\<close>

definition illuminaNewWithJunk_re :: regex where
  "illuminaNewWithJunk_re = seq [Str ''@'', Grp 1 (plusL vis), sepCU 2, num 3, sepCU 4, num 5,
     sepCU 6, num 7, sepCU 8, num 9, Grp 10 (Cat (plusL vis) (star wsp)),
     Grp 11 (One (chs ''12345'')), Str '':'', Grp 12 (One (chs ''NY'')), Str '':'',
     Grp 13 (Alt (plus dig) (Str ''O'')), opt1 (chs '':''), Grp 14 (starL vis), endSep 15]"

text \<open>\<open>[@>]?([!-~]+?)(:)(\d+)(:)(\d+)(:)(-?\d+)(:)(-?\d+)_?[012]?(#[!-~]*?|)\s?(/|\\)?([12345]?)(\s+|$)\<close>\<close>

definition illuminaOldColon_re :: regex where
  "illuminaOldColon_re = seq [opt1 (chs ''@>''), Grp 1 (plusL vis), lit 2 '':'', num 3, lit 4 '':'',
     num 5, lit 6 '':'', snum 7, lit 8 '':'', snum 9, opt1 (chs ''_''), opt1 (chs ''012''),
     Grp 10 (Alt (Cat (Str ''#'') (starL vis)) (Str [])), opt1 wsp, Opt (slash 11),
     Grp 12 (opt1 (chs ''12345'')), endSep 13]"

text \<open>\<open>[@>]?([!-~]+?)(_)(\d+)(_)(\d+)(_)(-?\d+)(_)(-?\d+)(#[!-~]*?|)\s?(/|\\)?([12345]?)(\s+|$)\<close>\<close>

definition illuminaOldUnderscore_re :: regex where
  "illuminaOldUnderscore_re = seq [opt1 (chs ''@>''), Grp 1 (plusL vis), lit 2 ''_'', num 3,
     lit 4 ''_'', num 5, lit 6 ''_'', snum 7, lit 8 ''_'', snum 9,
     Grp 10 (Alt (Cat (Str ''#'') (starL vis)) (Str [])), opt1 wsp, Opt (slash 11),
     Grp 12 (opt1 (chs ''12345'')), endSep 13]"

text \<open>\<open>[@>]?([!-~]*?)(:?)(\d+)(:)(\d+)(:)(-?\d+)(:)(-?\d+)(#[!-~]*?|)\s?(/|\\)?([12345]?)(\s+|$)\<close>\<close>

definition illuminaOldNoPrefix_re :: regex where
  "illuminaOldNoPrefix_re = seq [opt1 (chs ''@>''), Grp 1 (starL vis), Grp 2 (opt1 (chs '':'')),
     num 3, lit 4 '':'', num 5, lit 6 '':'', snum 7, lit 8 '':'', snum 9,
     Grp 10 (Alt (Cat (Str ''#'') (starL vis)) (Str [])), opt1 wsp, Opt (slash 11),
     Grp 12 (opt1 (chs ''12345'')), endSep 13]"

text \<open>\<open>[@>]?([!-~]+?)(:)(\d+)(:)(\d+)(:)(-?\d+)(:)(-?\d+)(#[!-~]+)(/)([12345])[!-~]+(\s+|$)\<close>\<close>

definition illuminaOldWithJunk_re :: regex where
  "illuminaOldWithJunk_re = seq [opt1 (chs ''@>''), Grp 1 (plusL vis), lit 2 '':'', num 3,
     lit 4 '':'', num 5, lit 6 '':'', snum 7, lit 8 '':'', snum 9,
     Grp 10 (Cat (Str ''#'') (plus vis)), lit 11 ''/'', Grp 12 (One (chs ''12345'')), plus vis,
     endSep 13]"

text \<open>\<open>[@>]?([!-~]+?)(:)(\d+)(:)(\d+)(:)(-?\d+)(:)(-?\d+)[!-~]+(#[!-~]*|)\s?(/|\\)?([12345]?)(\s+|$)\<close>\<close>

definition illuminaOldWithJunk2_re :: regex where
  "illuminaOldWithJunk2_re = seq [opt1 (chs ''@>''), Grp 1 (plusL vis), lit 2 '':'', num 3,
     lit 4 '':'', num 5, lit 6 '':'', snum 7, lit 8 '':'', snum 9, plus vis,
     Grp 10 (Alt (Cat (Str ''#'') (star vis)) (Str [])), opt1 wsp, Opt (slash 11),
     Grp 12 (opt1 (chs ''12345'')), endSep 13]"

text \<open>\<open>[@>]([!-~]+?)(#)([!-~]+?)(/|\\)([12345])(\s+|$)\<close>\<close>

definition illuminaOldBcRnOnly_re :: regex where
  "illuminaOldBcRnOnly_re = seq [atgt, Grp 1 (plusL vis), lit 2 ''#'', Grp 3 (plusL vis), slash 4,
     Grp 5 (One (chs ''12345'')), endSep 6]"

text \<open>\<open>[@>]([!-~]+?)(#)([!-~]+)(\s+|$)(.?)(.?)\<close>\<close>

definition illuminaOldBcOnly_re :: regex where
  "illuminaOldBcOnly_re = seq [atgt, Grp 1 (plusL vis), lit 2 ''#'', Grp 3 (plus vis), endSep 4,
     Grp 5 (opt1 AnyChar), Grp 6 (opt1 AnyChar)]"

text \<open>\<open>[@>]([!-~]+?)(/|\\)([12345])(\s+|$)(.?)(.?)\<close>\<close>

definition illuminaOldRnOnly_re :: regex where
  "illuminaOldRnOnly_re = seq [atgt, Grp 1 (plusL vis), slash 2, Grp 3 (One (chs ''12345'')),
     endSep 4, Grp 5 (opt1 AnyChar), Grp 6 (opt1 AnyChar)]"

text \<open>\<open>[@>]([!-~]*).*?\s+orig_bc=[!-~]+\s+new_bc=([!-~]+)\s+bc_diffs=[01]\<close>\<close>

definition qiimeBc_re :: regex where
  "qiimeBc_re = seq [atgt, Grp 1 (star vis), starL AnyChar, plus wsp, Str ''orig_bc='', plus vis,
     plus wsp, Str ''new_bc='', Grp 2 (plus vis), plus wsp, Str ''bc_diffs='', One (chs ''01'')]"

text \<open>\<open>[@>]([!-~]*)\s+([!-~]*?)(:|_)(\d+)(:|_)(\d+)(:|_)(\d+)(:|_)(\d+)(\s+|_|:)([12345]):([NY]):(\d+|O):?([!-~]*?)(\s+|$)\<close>\<close>

definition qiimeIlluminaNew_re :: regex where
  "qiimeIlluminaNew_re = seq [atgt, Grp 1 (star vis), plus wsp, Grp 2 (starL vis), sepCU 3, num 4,
     sepCU 5, num 6, sepCU 7, num 8, sepCU 9, num 10,
     Grp 11 (alts [plus wsp, Str ''_'', Str '':'']),
     Grp 12 (One (chs ''12345'')), Str '':'', Grp 13 (One (chs ''NY'')), Str '':'',
     Grp 14 (Alt (plus dig) (Str ''O'')), opt1 (chs '':''), Grp 15 (starL vis), endSep 16]"

text \<open>\<open>[@>]([!-~]*)\s+([!-~]*?)(\.)(\d+)(\.)(\d+)(\.)(\d+)(\.)(\d+)(\s+|_|:)([12345])\.([NY])\.(\d+|O)\.?([!-~]*?)(\s+|$)\<close>\<close>

definition qiimeIlluminaNewPeriods_re :: regex where
  "qiimeIlluminaNewPeriods_re = seq [atgt, Grp 1 (star vis), plus wsp, Grp 2 (starL vis),
     lit 3 ''.'', num 4, lit 5 ''.'', num 6, lit 7 ''.'', num 8, lit 9 ''.'', num 10,
     Grp 11 (alts [plus wsp, Str ''_'', Str '':'']),
     Grp 12 (One (chs ''12345'')), Str ''.'', Grp 13 (One (chs ''NY'')), Str ''.'',
     Grp 14 (Alt (plus dig) (Str ''O'')), opt1 (chs ''.''), Grp 15 (starL vis), endSep 16]"

text \<open>\<open>[@>]([!-~]*)\s+([!-~]+?)(:)(\d+)(:)(\d+)(:)(-?\d+)(:)(-?\d+)#?([!-~]*?)\s?(/|\\)?([12345]?)(\s+|$)\<close>\<close>

definition qiimeIlluminaOld_re :: regex where
  "qiimeIlluminaOld_re = seq [atgt, Grp 1 (star vis), plus wsp, Grp 2 (plusL vis), lit 3 '':'',
     num 4, lit 5 '':'', num 6, lit 7 '':'', snum 8, lit 9 '':'', snum 10, opt1 (chs ''#''),
     Grp 11 (starL vis), opt1 wsp, Opt (slash 12), Grp 13 (opt1 (chs ''12345'')), endSep 14]"

text \<open>\<open>[@>]([!-~]+_|)([A-Z0-9]{7})(\d{2})([A-Z0-9]{5})[/]?([12345]?)(\s+|$)\<close>\<close>

definition ls454_re :: regex where
  "ls454_re = seq [atgt, Grp 1 (Alt (Cat (plus vis) (Str ''_'')) (Str [])), Grp 2 (times 7 alnumU),
     Grp 3 (times 2 dig), Grp 4 (times 5 alnumU), opt1 (chs ''/''),
     Grp 5 (opt1 (chs ''12345'')), endSep 6]"

text \<open>\<open>[@>]([!-~]*)\s+([A-Z0-9]{7})(\d{2})([A-Z0-9]{5})[/]?([12345]?)(\s+|$)\<close>\<close>

definition qiime454_re :: regex where
  "qiime454_re = seq [atgt, Grp 1 (star vis), plus wsp, Grp 2 (times 7 alnumU),
     Grp 3 (times 2 dig), Grp 4 (times 5 alnumU), opt1 (chs ''/''),
     Grp 5 (opt1 (chs ''12345'')), endSep 6]"

text \<open>\<open>[@>](m\d{6}_\d{6}_[!-~]+?_c\d{33}_s\d+_[pX]\d/\d+/?\d*_?\d*)(\s+|$)\<close>\<close>

definition pacbio_re :: regex where
  "pacbio_re = seq [atgt, Grp 1 (seq [Str ''m'', times 6 dig, Str ''_'', times 6 dig, Str ''_'',
       plusL vis, Str ''_c'', times 33 dig, Str ''_s'', plus dig, Str ''_'', One (chs ''pX''),
       One dig, Str ''/'', plus dig, opt1 (chs ''/''), star dig, opt1 (chs ''_''), star dig]),
     endSep 2]"

text \<open>\<open>(_twodirections|_2d|-2D|_template|-1D|_complement|-complement)\<close> and
  \<open>(:[!-~]+?_ch\d+_file\d+_strand.fast5)\<close>, shared by the three Nanopore patterns.\<close>

definition poreRead_grp :: "nat \<Rightarrow> regex" where
  "poreRead_grp n = Grp n (alts [Str ''_twodirections'', Str ''_2d'', Str ''-2D'', Str ''_template'',
     Str ''-1D'', Str ''_complement'', Str ''-complement''])"

definition poreFile_grp :: "nat \<Rightarrow> regex" where
  "poreFile_grp n = Grp n (seq [Str '':'', plusL vis, Str ''_ch'', plus dig, Str ''_file'', plus dig,
     Str ''_strand'', One AnyChar, Str ''fast5''])"

text \<open>\<open>[@>](channel_)(\d+)(_read_)(\d+)([!-~]*?)(_twodirections|...)?(:[!-~]+?_ch\d+_file\d+_strand.fast5)?(\s+|$)\<close>\<close>

definition nanopore_re :: regex where
  "nanopore_re = seq [atgt, lit 1 ''channel_'', num 2, lit 3 ''_read_'', num 4, Grp 5 (starL vis),
     Opt (poreRead_grp 6), Opt (poreFile_grp 7), endSep 8]"

text \<open>\<open>[@>]([!-~]*?ch)(\d+)(_file)(\d+)([!-~]*?)(_twodirections|...)(:[!-~]+?_ch\d+_file\d+_strand.fast5)?(\s+|$)\<close>\<close>

definition nanopore2_re :: regex where
  "nanopore2_re = seq [atgt, Grp 1 (Cat (starL vis) (Str ''ch'')), num 2, lit 3 ''_file'', num 4,
     Grp 5 (starL vis), poreRead_grp 6, Opt (poreFile_grp 7), endSep 8]"

text \<open>\<open>[@>]([!-~]+?_Basecall_2D_000[!-~]+?\s[!-~]*?ch)(\d+)(_file)(\d+)([!-~]*?)(_twodirections|...)(:[!-~]+?_ch\d+_file\d+_strand.fast5)?(\s+|$)\<close>\<close>

definition nanopore3_re :: regex where
  "nanopore3_re = seq [atgt,
     Grp 1 (seq [plusL vis, Str ''_Basecall_2D_000'', plusL vis, One wsp, starL vis, Str ''ch'']),
     num 2, lit 3 ''_file'', num 4, Grp 5 (starL vis), poreRead_grp 6, Opt (poreFile_grp 7),
     endSep 8]"

text \<open>\<open>[@>](VHE-\d+)-(\d+)-(\d+)-(\d)-(\d+)(\s+|$)\<close>\<close>

definition helicos_re :: regex where
  "helicos_re = seq [atgt, Grp 1 (Cat (Str ''VHE-'') (plus dig)), Str ''-'', num 2, Str ''-'', num 3,
     Str ''-'', Grp 4 (One dig), Str ''-'', num 5, endSep 6]"

text \<open>\<open>[@>]([A-Z0-9]{5})(:)(\d{1,5})(:)(\d{1,5})[/]?([12345]?)(\s+|$)\<close>\<close>

definition ionTorrent_re :: regex where
  "ionTorrent_re = seq [atgt, Grp 1 (times 5 alnumU), lit 2 '':'', Grp 3 (Rep dig 1 (Some 5) True),
     lit 4 '':'', Grp 5 (Rep dig 1 (Some 5) True), opt1 (chs ''/''),
     Grp 6 (opt1 (chs ''12345'')), endSep 7]"

text \<open>\<open>[@>]([!-~]*?)(\d+)_(\d+)_(\d+)_(F3|R3|F5-BC|BC|F5-P2|F5-RNA|F5-DNA)([!-~]*?)(\s+|$)\<close>\<close>

definition abSolid_re :: regex where
  "abSolid_re = seq [atgt, Grp 1 (starL vis), num 2, Str ''_'', num 3, Str ''_'', num 4, Str ''_'',
     Grp 5 (alts [Str ''F3'', Str ''R3'', Str ''F5-BC'', Str ''BC'', Str ''F5-P2'', Str ''F5-RNA'',
       Str ''F5-DNA'']),
     Grp 6 (starL vis), endSep 7]"

text \<open>\<open>[@>]([!-~]+?)\s+template=([!-~]+)\s+dir=([!-~]+)(\s+|$)\<close>\<close>

definition sangerNewbler_re :: regex where
  "sangerNewbler_re = seq [atgt, Grp 1 (plusL vis), plus wsp, Str ''template='', Grp 2 (plus vis),
     plus wsp, Str ''dir='', Grp 3 (plus vis), endSep 4]"

text \<open>\<open>[@>]([!-~]+)\s+read_id=([!-~]*?::|)([!-~]+)\s+barcode=([!-~]+).*(\s+|$)\<close>\<close>

definition readIdBarcode_re :: regex where
  "readIdBarcode_re = seq [atgt, Grp 1 (plus vis), plus wsp, Str ''read_id='',
     Grp 2 (Alt (Cat (starL vis) (Str ''::'')) (Str [])), Grp 3 (plus vis), plus wsp,
     Str ''barcode='', Grp 4 (plus vis), star AnyChar, endSep 5]"

text \<open>\<open>[@>]([!-~]+)(\s+|$)\<close>\<close>

definition undefined_re :: regex where
  "undefined_re = seq [atgt, Grp 1 (plus vis), endSep 2]"

section \<open>Deflines\<close>

datatype deflineKind =
    ILLUMINA_NEW | ILLUMINA_OLD | PACBIO | ABSOLID | QIIME_ILLUMINA_NEW | QIIME_ILLUMINA_NEW_BC
  | ILLUMINA_NEW_DOUBLE | LS454 | UNDEFINED | ILLUMINA_OLD_BC_RN | ILLUMINA_NEW_WITH_JUNK
  | QIIME_ILLUMINA_OLD | QIIME_ILLUMINA_OLD_BC | QIIME_454 | QIIME_454_BC
  | QIIME_ILLUMINA_NEW_DBL | QIIME_ILLUMINA_NEW_DBL_BC | QIIME_GENERIC | READID_BARCODE
  | ILLUMINA_NEW_OLD | NANOPORE | HELICOS | ION_TORRENT | SANGER_NEWBLER

text \<open>The attributes of a \<open>Defline\<close> object. \<open>deflineType\<close> is \<open>None\<close> until a variant is
  latched; \<open>x\<close> and \<open>y\<close> are \<open>xval\<close> and \<open>yval\<close>; the pattern slots that the parser rebinds
  (\<open>illuminaNew\<close>, \<open>illuminaOld\<close>, \<open>illuminaOldBcRn\<close>, \<open>qiimeIlluminaNew\<close>, \<open>nanopore\<close>) are
  fields, the other patterns are the constants above.\<close>

record defline =
  deflineType :: "deflineKind option"
  deflineStringOrig :: string
  deflineString :: string
  saveDeflineType :: bool
  name :: string
  platform :: string
  isValid :: bool
  readNum :: string
  filterRead :: str_or_int
  spotGroup :: "string option"
  prefix :: string
  lane :: string
  tile :: string
  xval :: string
  yval :: string
  numDiscards :: int
  dateAndHash454 :: string
  region454 :: string
  xy454 :: string
  qiimeName :: string
  filename :: string
  poreRead :: string
  poreFile :: "string option"
  channel :: string
  readNo :: str_or_int
  flowcell :: string
  field :: string
  camera :: string
  position :: string
  runId :: string
  row :: string
  column :: string
  dir :: string
  panel :: string
  tagType :: string
  suffix :: string
  abiTitle :: string
  illuminaNew :: regex
  illuminaOld :: "regex option"
  illuminaOldBcRn :: "regex option"
  qiimeIlluminaNew :: regex
  nanopore :: regex

text \<open>\<open>Defline(None)\<close>: the object before any line is parsed.\<close>

definition new_defline :: defline where
  "new_defline = \<lparr> deflineType = None, deflineStringOrig = [], deflineString = [],
     saveDeflineType = True, name = [], platform = ''NotSet'', isValid = False, readNum = [],
     filterRead = PInt 0, spotGroup = Some [], prefix = [], lane = [], tile = [], xval = [],
     yval = [], numDiscards = 0, dateAndHash454 = [], region454 = [], xy454 = [],
     qiimeName = [], filename = [], poreRead = [], poreFile = Some [], channel = [],
     readNo = PInt 0, flowcell = [], field = [], camera = [], position = [], runId = [], row = [],
     column = [], dir = [], panel = [], tagType = [], suffix = [], abiTitle = [],
     illuminaNew = illuminaNew_re, illuminaOld = None, illuminaOldBcRn = None,
     qiimeIlluminaNew = qiimeIlluminaNew_re, nanopore = nanopore_re \<rparr>"

definition reset :: "defline \<Rightarrow> defline" where
  "reset d = d\<lparr> deflineStringOrig := [], deflineString := [], name := [], isValid := True,
     readNum := [], filterRead := PInt 0, spotGroup := Some [], prefix := [], lane := [],
     tile := [], xval := [], yval := [], dateAndHash454 := [], region454 := [], xy454 := [],
     qiimeName := [], poreRead := [], poreFile := Some [], channel := [], readNo := PInt 0,
     runId := [], row := [], column := [], camera := [], field := [], position := [],
     flowcell := [], panel := [], tagType := [], suffix := [], dir := [] \<rparr>"

subsection \<open>\<open>Defline.isPairedDeflines\<close>\<close>

text \<open>The method returns \<open>False\<close>, \<open>True\<close>, \<open>1\<close> or \<open>2\<close>; \<open>py_eq\<close> is Python's \<open>==\<close> on such
  values, for which \<open>True == 1\<close> and \<open>False == 0\<close>.\<close>

datatype pyval = PyBool bool | PyInt int

fun int_of_pyval :: "pyval \<Rightarrow> int" where
  "int_of_pyval (PyBool b) = (if b then 1 else 0)"
| "int_of_pyval (PyInt n) = n"

definition py_eq :: "pyval \<Rightarrow> int \<Rightarrow> bool" where
  "py_eq v n = (int_of_pyval v = n)"

definition isPairedDeflines :: "defline \<Rightarrow> defline \<Rightarrow> bool \<Rightarrow> pyval" where
  "isPairedDeflines defline1 defline2 sameReadNum =
     (if sameReadNum \<and> name defline1 \<noteq> [] \<and> name defline2 \<noteq> [] \<and>
         name defline1 = name defline2 \<and> readNum defline1 = readNum defline2 then
        (if tagType defline1 \<noteq> [] \<and> tagType defline2 \<noteq> [] \<and>
            \<not> tagType defline1 = tagType defline2
         then PyBool False else PyBool True)
      else if \<not> sameReadNum \<and> name defline1 \<noteq> [] \<and> name defline2 \<noteq> [] \<and>
              name defline1 = name defline2 then
        (if readNum defline1 \<noteq> [] \<and> readNum defline2 \<noteq> [] then
           (if str_less (readNum defline1) (readNum defline2) then PyInt 1 else PyInt 2)
         else if poreRead defline1 \<noteq> [] \<and> poreRead defline1 = ''template'' then PyInt 1
         else if poreRead defline2 \<noteq> [] \<and> poreRead defline2 = ''template'' then PyInt 2
         else if poreRead defline1 \<noteq> [] \<or> poreRead defline2 \<noteq> [] then PyBool False
         else if tagType defline1 \<noteq> [] \<and> tagType defline2 \<noteq> [] then
           (if tagType defline1 = ''F3'' \<and> tagType defline2 \<noteq> ''F3'' then PyInt 1
            else if tagType defline2 = ''F3'' \<and> tagType defline1 \<noteq> ''F3'' then PyInt 2
            else PyInt 1)
         else if str_less (deflineString defline1) (deflineString defline2) then PyInt 1
         else if str_less (deflineString defline2) (deflineString defline1) then PyInt 2
         else PyInt 1)
      else PyBool False)"

subsection \<open>\<open>Defline.parseDeflineString\<close>, one definition per branch\<close>

text \<open>Each branch takes the object after \<open>reset\<close> and the assignment of the two defline
  strings, and returns it as the method leaves it; the method's return value is the
  \<open>isValid\<close> field. \<open>invalid\<close> is the early \<open>self.isValid = False; return\<close>. A group that is
  \<open>None\<close> where the source concatenates it raises \<open>TypeError\<close>; a pattern slot that is still
  \<open>None\<close> when \<open>.match\<close> is called on it raises \<open>AttributeError\<close>. In the types of
  the functions that take unpacked groups, \<open>sepstr\<close> is the text of a separator group and
  \<open>numstr\<close> the text of a numeric group.\<close>

type_synonym sepstr = string
type_synonym numstr = string

definition invalid :: "defline \<Rightarrow> error + defline" where
  "invalid d = Inr (d\<lparr>isValid := False\<rparr>)"

definition group_error :: "error + defline" where
  "group_error = Inl (PyException ''TypeError'')"

text \<open>\<open>if not self.deflineType and self.saveDeflineType: deflineType = k; platform = p\<close>\<close>

definition latch :: "deflineKind \<Rightarrow> string \<Rightarrow> defline \<Rightarrow> defline" where
  "latch k p d = (if deflineType d = None \<and> saveDeflineType d
                  then d\<lparr>deflineType := Some k, platform := p\<rparr> else d)"

definition latch_type :: "deflineKind \<Rightarrow> defline \<Rightarrow> defline" where
  "latch_type k d = (if deflineType d = None \<and> saveDeflineType d
                     then d\<lparr>deflineType := Some k\<rparr> else d)"

definition parse_helicos :: "defline \<Rightarrow> error + defline" where
  "parse_helicos d =
     (case re_match helicos_re (deflineString d) of
        None \<Rightarrow> invalid d
      | Some gs \<Rightarrow>
          (case gs of
             [Some fc, Some ch, Some fld, Some cam, Some pos, es] \<Rightarrow>
               Inr (latch HELICOS ''HELICOS''
                 (d\<lparr>flowcell := fc, channel := ch, field := fld, camera := cam, position := pos,
                    name := fc @ ''-'' @ ch @ ''-'' @ fld @ ''-'' @ cam @ ''-'' @ pos\<rparr>))
           | _ \<Rightarrow> group_error))"

definition parse_abSolid :: "defline \<Rightarrow> error + defline" where
  "parse_abSolid d =
     (case re_match abSolid_re (deflineString d) of
        None \<Rightarrow> invalid d
      | Some gs \<Rightarrow>
          (case gs of
             [Some pre, Some pan, Some x, Some y, Some tag, Some suf, es] \<Rightarrow>
               Inr (latch ABSOLID ''ABSOLID''
                 (d\<lparr>prefix := pre, panel := pan, xval := x, yval := y, tagType := tag,
                    suffix := suf,
                    name := (if abiTitle d \<noteq> []
                             then abiTitle d @ pre @ pan @ ''_'' @ x @ ''_'' @ y @ suf
                             else pre @ pan @ ''_'' @ x @ ''_'' @ y @ suf)\<rparr>))
           | _ \<Rightarrow> group_error))"

text \<open>The new Illumina branch after the groups are unpacked. \<open>re.search("/[1234]$", ...)\<close> is
  \<open>readNumTail_re\<close>.\<close>

definition readNumTail_re :: regex where
  "readNumTail_re = seq [Str ''/'', One (chs ''1234''), Dollar]"

definition illuminaNew_fields ::
  "defline \<Rightarrow> string \<Rightarrow> sepstr \<Rightarrow> numstr \<Rightarrow> sepstr \<Rightarrow> numstr \<Rightarrow> sepstr \<Rightarrow> numstr \<Rightarrow> sepstr \<Rightarrow> numstr
     \<Rightarrow> string \<Rightarrow> string \<Rightarrow> string \<Rightarrow> defline" where
  "illuminaNew_fields d pre sep1 lan sep2 til sep3 x sep4 y rn filt sg0 =
     (let sg = (if sg0 = ''0'' then [] else sg0);
          nm = (if pre \<noteq> [] then pre @ sep1 @ lan @ sep2 @ til @ sep3 @ x @ sep4 @ y
                else lan @ sep2 @ til @ sep3 @ x @ sep4 @ y);
          d1 = d\<lparr>prefix := pre, lane := lan, tile := til, xval := x, yval := y, readNum := rn,
                 filterRead := PStr filt, spotGroup := Some sg, name := nm\<rparr>;
          d2 = (if deflineType d1 = Some ILLUMINA_NEW_DOUBLE \<or>
                   (deflineType d1 = None \<and> length nm < length sg \<and> py_in nm sg) then
                  (let start = py_find sg nm in
                   if start \<noteq> -1 then
                     (let d' = d1\<lparr>spotGroup := Some (py_slice sg 0 (start - 1))\<rparr> in
                      if saveDeflineType d' then d'\<lparr>deflineType := Some ILLUMINA_NEW_DOUBLE\<rparr>
                      else d')
                   else d1)
                else if deflineType d1 = Some ILLUMINA_NEW_OLD \<or>
                        (deflineType d1 = None \<and> re_search readNumTail_re sg) then
                  (let d' = d1\<lparr>spotGroup := Some (py_slice sg 0 (int (length sg) - 2))\<rparr> in
                   if saveDeflineType d' then d'\<lparr>deflineType := Some ILLUMINA_NEW_OLD\<rparr> else d')
                else d1);
          d3 = d2\<lparr>filterRead := (if filt = ''Y'' then PInt 1 else PInt 0)\<rparr>
      in latch_type ILLUMINA_NEW d3)"

definition parse_illuminaNew :: "defline \<Rightarrow> error + defline" where
  "parse_illuminaNew d =
     (let s = deflineString d;
          found = (if re_matches (illuminaNew d) s then illuminaNew d
                   else if re_matches illuminaNewNoPrefix_re s then illuminaNewNoPrefix_re
                   else illuminaNewWithJunk_re);
          m = (if deflineType d \<noteq> None then re_match (illuminaNew d) s else re_match found s);
          d1 = (if deflineType d = None \<and> saveDeflineType d
                then d\<lparr>illuminaNew := found, platform := ''ILLUMINA''\<rparr> else d)
      in case m of
           None \<Rightarrow> invalid d1
         | Some gs \<Rightarrow>
             (case gs of
                [Some pre, Some sep1, Some lan, Some sep2, Some til, Some sep3, Some x, Some sep4,
                 Some y, sep5, Some rn, Some filt, reserved, Some sg, es] \<Rightarrow>
                  Inr (illuminaNew_fields d1 pre sep1 lan sep2 til sep3 x sep4 y rn filt sg)
              | _ \<Rightarrow> group_error))"

text \<open>\<open>countExtraNumbersInIllumina\<close>: \<open>re.split(sep, self.prefix)\<close> with \<open>sep\<close> the one-character
  separator the pattern captured.\<close>

definition countExtraNumbersInIllumina :: "defline \<Rightarrow> string \<Rightarrow> error + int" where
  "countExtraNumbersInIllumina d sep =
     (case rev (split_chars (\<lambda>c. [c] = sep) (prefix d)) of
        [] \<Rightarrow> Inl (PyException ''IndexError'')
      | lastChunk # before \<Rightarrow>
          (let numCount = (if py_isdigit lastChunk then 1 else 0) +
                          (case before of [] \<Rightarrow> 0
                           | chunk # _ \<Rightarrow> if py_isdigit chunk then 1 else (0::nat))
           in if 0 < numCount then
                (case py_int (yval d) of
                   Inl e \<Rightarrow> Inl e
                 | Inr yv \<Rightarrow>
                     if yv < 3 then
                       (if numCount = 2 then
                          (case py_int (xval d) of
                             Inl e \<Rightarrow> Inl e
                           | Inr xv \<Rightarrow> Inr (if xv < 3 then 2 else 1))
                        else Inr 1)
                     else Inr 0)
              else Inr 0))"

text \<open>The old Illumina branch after the groups are unpacked. The two patterns built from
  \<open>sep4\<close> are \<open>([!-~]*?)(sep4)(\d+)$\<close> and \<open>([!-~]*?)(sep4)(\d+)(sep4)(\d+)(\s+|$)\<close>.\<close>

definition discard1_re :: "string \<Rightarrow> regex" where
  "discard1_re sep4 = seq [Grp 1 (starL vis), Grp 2 (Str sep4), num 3, Dollar]"

definition discard2_re :: "string \<Rightarrow> regex" where
  "discard2_re sep4 = seq [Grp 1 (starL vis), Grp 2 (Str sep4), num 3, Grp 4 (Str sep4), num 5,
     endSep 6]"

definition illuminaOld_spotGroup :: "string \<Rightarrow> string" where
  "illuminaOld_spotGroup sg0 =
     (let sg = (if sg0 \<noteq> [] then py_slice_from sg0 1 else sg0)
      in if sg = ''0'' then [] else sg)"

definition illuminaOld_fields ::
  "defline \<Rightarrow> regex \<Rightarrow> string \<Rightarrow> sepstr \<Rightarrow> numstr \<Rightarrow> sepstr \<Rightarrow> numstr \<Rightarrow> sepstr \<Rightarrow> numstr \<Rightarrow> sepstr
     \<Rightarrow> numstr \<Rightarrow> string \<Rightarrow> string \<Rightarrow> error + defline" where
  "illuminaOld_fields d found pre sep1 lan sep2 til sep3 x sep4 y sg0 rn =
     (let d1 = d\<lparr>prefix := pre, lane := lan, tile := til, xval := x, yval := y,
                 spotGroup := Some sg0, readNum := rn\<rparr>
      in case (if deflineType d1 = None \<and> pre \<noteq> []
               then countExtraNumbersInIllumina d1 sep4 else Inr (numDiscards d1)) of
           Inl e \<Rightarrow> Inl e
         | Inr n \<Rightarrow>
             (let d2 = d1\<lparr>numDiscards := n\<rparr> in
              case
                (if 0 < n then
                   (if n = 1 then
                      (case re_match (discard1_re sep4) pre of
                         None \<Rightarrow> Inl (PyException ''AttributeError'')
                       | Some gs \<Rightarrow>
                           (case gs of
                              [Some pre', Some sep0, Some lan'] \<Rightarrow>
                                Inr (d2\<lparr>yval := x, xval := til, tile := lan, prefix := pre',
                                       lane := lan',
                                       name := pre' @ sep0 @ lan' @ sep1 @ lan @ sep2 @ til @ sep3 @ x\<rparr>)
                            | _ \<Rightarrow> group_error))
                    else if n = 2 then
                      (case re_match (discard2_re sep4) pre of
                         None \<Rightarrow> Inl (PyException ''AttributeError'')
                       | Some gs \<Rightarrow>
                           (case gs of
                              [Some pre', Some sepm1, Some lan', Some sep0, Some til', sepUnused] \<Rightarrow>
                                Inr (d2\<lparr>yval := til, xval := lan, prefix := pre', lane := lan',
                                       tile := til',
                                       name := pre' @ sepm1 @ lan' @ sep0 @ til' @ sep1 @ lan @ sep2 @ til\<rparr>)
                            | _ \<Rightarrow> group_error))
                    else Inr d2)
                 else if pre \<noteq> [] then
                   Inr (d2\<lparr>name := pre @ sep1 @ lan @ sep2 @ til @ sep3 @ x @ sep4 @ y\<rparr>)
                 else Inr (d2\<lparr>name := lan @ sep2 @ til @ sep3 @ x @ sep4 @ y\<rparr>)) of
                Inl e \<Rightarrow> Inl e
              | Inr d3 \<Rightarrow>
                  (let d4 = d3\<lparr>spotGroup := Some (illuminaOld_spotGroup sg0)\<rparr>
                   in Inr (if deflineType d4 = None \<and> saveDeflineType d4
                           then d4\<lparr>illuminaOld := Some found, platform := ''ILLUMINA'',
                                  deflineType := Some ILLUMINA_OLD\<rparr>
                           else d4))))"

definition parse_illuminaOld :: "defline \<Rightarrow> error + defline" where
  "parse_illuminaOld d =
     (let s = deflineString d;
          found = (if re_matches illuminaOldWithJunk_re s then illuminaOldWithJunk_re
                   else if re_matches illuminaOldColon_re s then illuminaOldColon_re
                   else if re_matches illuminaOldUnderscore_re s then illuminaOldUnderscore_re
                   else if re_matches illuminaOldWithJunk2_re s then illuminaOldWithJunk2_re
                   else illuminaOldNoPrefix_re)
      in case (if deflineType d \<noteq> None then illuminaOld d else Some found) of
           None \<Rightarrow> Inl (PyException ''AttributeError'')
         | Some r \<Rightarrow>
             (case re_match r s of
                None \<Rightarrow> invalid d
              | Some gs \<Rightarrow>
                  (case gs of
                     [Some pre, Some sep1, Some lan, Some sep2, Some til, Some sep3, Some x,
                      Some sep4, Some y, Some sg, sep5, Some rn, es] \<Rightarrow>
                       illuminaOld_fields d found pre sep1 lan sep2 til sep3 x sep4 y sg rn
                   | _ \<Rightarrow> group_error)))"

text \<open>The QIIME branches read the corrected barcode with \<open>qiimeBc\<close>: \<open>m_bc\<close> is \<open>None\<close> when
  the barcode suffix is not looked for, otherwise the result of the match.\<close>

definition slashRead_re :: regex where
  "slashRead_re = seq [Str ''/'', One (chs ''12'')]"

definition qiimeIlluminaNew_fields ::
  "defline \<Rightarrow> string option list option \<Rightarrow> string \<Rightarrow> string \<Rightarrow> sepstr \<Rightarrow> numstr \<Rightarrow> sepstr \<Rightarrow> numstr
     \<Rightarrow> sepstr \<Rightarrow> numstr \<Rightarrow> sepstr \<Rightarrow> numstr \<Rightarrow> string \<Rightarrow> string \<Rightarrow> string \<Rightarrow> error + defline" where
  "qiimeIlluminaNew_fields d m_bc qn pre sep1 lan sep2 til sep3 x sep4 y rn filt sg0 =
     (let d1 = d\<lparr>qiimeName := qn, prefix := pre, lane := lan, tile := til, xval := x, yval := y,
                 readNum := rn, filterRead := PStr filt, spotGroup := Some sg0\<rparr>;
          look = (deflineType d1 = Some QIIME_ILLUMINA_NEW_BC \<or>
                  (deflineType d1 = None \<and> re_matches qiimeBc_re (deflineString d1)))
      in if look \<and> deflineType d1 = Some QIIME_ILLUMINA_NEW_BC \<and> m_bc = None then invalid d1
         else
           (case (if look then (case m_bc of Some [g1, Some bc] \<Rightarrow> Inr bc
                                | _ \<Rightarrow> Inl (PyException ''AttributeError''))
                  else Inr sg0) of
              Inl e \<Rightarrow> Inl e
            | Inr sg \<Rightarrow>
                (let nm = pre @ sep1 @ lan @ sep2 @ til @ sep3 @ x @ sep4 @ y;
                     d2 = d1\<lparr>spotGroup := Some sg, name := nm\<rparr>;
                     d3 = (if deflineType d2 = Some QIIME_ILLUMINA_NEW_DBL \<or>
                              deflineType d2 = Some QIIME_ILLUMINA_NEW_DBL_BC \<or>
                              (deflineType d2 = None \<and> length nm < length sg \<and> py_in nm sg) then
                             (let start = py_find sg nm in
                              if start \<noteq> -1 then
                                (let sg1 = py_slice sg 0 (start - 1);
                                     sg2 = (if re_search slashRead_re sg1
                                            then py_slice sg1 0 (int (length sg1) - 2) else sg1);
                                     d' = d2\<lparr>spotGroup := Some sg2\<rparr>
                                 in if deflineType d' = None \<and> saveDeflineType d'
                                    then d'\<lparr>deflineType := Some QIIME_ILLUMINA_NEW_DBL\<rparr> else d')
                              else d2)
                           else d2);
                     d4 = d3\<lparr>filterRead := (if filt = ''Y'' then PInt 1 else PInt 0)\<rparr>
                 in Inr (latch_type (if \<not> look then QIIME_ILLUMINA_NEW
                                     else QIIME_ILLUMINA_NEW_BC) d4))))"

definition parse_qiimeIlluminaNew :: "defline \<Rightarrow> error + defline" where
  "parse_qiimeIlluminaNew d =
     (let s = deflineString d;
          found = (if re_matches (qiimeIlluminaNew d) s then qiimeIlluminaNew d
                   else qiimeIlluminaNewPeriods_re);
          m = (if deflineType d \<noteq> None then re_match (qiimeIlluminaNew d) s
               else re_match found s);
          d1 = (if deflineType d = None \<and> saveDeflineType d
                then d\<lparr>qiimeIlluminaNew := found, platform := ''ILLUMINA''\<rparr> else d)
      in case m of
           None \<Rightarrow> invalid d1
         | Some gs \<Rightarrow>
             (case gs of
                [Some qn, Some pre, Some sep1, Some lan, Some sep2, Some til, Some sep3, Some x,
                 Some sep4, Some y, sep5, Some rn, Some filt, reserved, Some sg, es] \<Rightarrow>
                  qiimeIlluminaNew_fields d1 (re_match qiimeBc_re s) qn pre sep1 lan sep2 til sep3
                    x sep4 y rn filt sg
              | _ \<Rightarrow> group_error))"

definition parse_qiimeIlluminaOld :: "defline \<Rightarrow> error + defline" where
  "parse_qiimeIlluminaOld d =
     (let s = deflineString d in
      case re_match qiimeIlluminaOld_re s of
        None \<Rightarrow> invalid d
      | Some gs \<Rightarrow>
          (case gs of
             [Some qn, Some pre, Some sep1, Some lan, Some sep2, Some til, Some sep3, Some x,
              Some sep4, Some y, Some sg0, sep5, Some rn, es] \<Rightarrow>
               (let d1 = d\<lparr>qiimeName := qn, prefix := pre, lane := lan, tile := til, xval := x,
                           yval := y, spotGroup := Some sg0, readNum := rn\<rparr>;
                    m_bc = re_match qiimeBc_re s;
                    look = (deflineType d1 = Some QIIME_ILLUMINA_OLD_BC \<or>
                            (deflineType d1 = None \<and> m_bc \<noteq> None))
                in if look \<and> deflineType d1 = Some QIIME_ILLUMINA_OLD_BC \<and> m_bc = None
                   then invalid d1
                   else
                     (case (if look then (case m_bc of Some [g1, Some bc] \<Rightarrow> Inr bc
                                          | _ \<Rightarrow> Inl (PyException ''AttributeError''))
                            else Inr sg0) of
                        Inl e \<Rightarrow> Inl e
                      | Inr sg \<Rightarrow>
                          Inr (latch (if \<not> look then QIIME_ILLUMINA_OLD else QIIME_ILLUMINA_OLD_BC)
                                 ''ILLUMINA''
                                 (d1\<lparr>spotGroup := Some sg,
                                     name := pre @ sep1 @ lan @ sep2 @ til @ sep3 @ x @ sep4 @ y\<rparr>))))
           | _ \<Rightarrow> group_error))"

definition parse_ls454 :: "defline \<Rightarrow> error + defline" where
  "parse_ls454 d =
     (case re_match ls454_re (deflineString d) of
        None \<Rightarrow> invalid d
      | Some gs \<Rightarrow>
          (case gs of
             [Some pre, Some dh, Some reg, Some xy, Some rn, es] \<Rightarrow>
               Inr (latch LS454 ''LS454''
                 (d\<lparr>prefix := pre, dateAndHash454 := dh, region454 := reg, xy454 := xy,
                    readNum := rn, name := pre @ dh @ reg @ xy\<rparr>))
           | _ \<Rightarrow> group_error))"

definition parse_qiime454 :: "defline \<Rightarrow> error + defline" where
  "parse_qiime454 d =
     (let s = deflineString d in
      case re_match qiime454_re s of
        None \<Rightarrow> invalid d
      | Some gs \<Rightarrow>
          (case gs of
             [Some qn, Some dh, Some reg, Some xy, Some rn, es] \<Rightarrow>
               (let d1 = d\<lparr>qiimeName := qn, dateAndHash454 := dh, region454 := reg, xy454 := xy,
                           readNum := rn\<rparr>;
                    m_bc = re_match qiimeBc_re s;
                    look = (deflineType d1 = Some QIIME_454_BC \<or>
                            (deflineType d1 = None \<and> m_bc \<noteq> None))
                in if look \<and> deflineType d1 = Some QIIME_454_BC \<and> m_bc = None then invalid d1
                   else
                     (case (if look then (case m_bc of Some [g1, Some bc] \<Rightarrow> Inr (Some bc)
                                          | _ \<Rightarrow> Inl (PyException ''AttributeError''))
                            else Inr (spotGroup d1)) of
                        Inl e \<Rightarrow> Inl e
                      | Inr sg \<Rightarrow>
                          Inr (latch (if \<not> look then QIIME_454 else QIIME_454_BC) ''LS454''
                                 (d1\<lparr>spotGroup := sg, name := dh @ reg @ xy\<rparr>))))
           | _ \<Rightarrow> group_error))"

definition parse_pacbio :: "defline \<Rightarrow> error + defline" where
  "parse_pacbio d =
     (case re_match pacbio_re (deflineString d) of
        None \<Rightarrow> invalid d
      | Some gs \<Rightarrow>
          (case gs of
             [Some nm, es] \<Rightarrow> Inr (latch PACBIO ''PACBIO'' (d\<lparr>name := nm\<rparr>))
           | _ \<Rightarrow> group_error))"

definition parse_ionTorrent :: "defline \<Rightarrow> error + defline" where
  "parse_ionTorrent d =
     (case re_match ionTorrent_re (deflineString d) of
        None \<Rightarrow> invalid d
      | Some gs \<Rightarrow>
          (case gs of
             [Some run, Some sep1, Some rw, Some sep2, Some col, Some rn, es] \<Rightarrow>
               Inr (latch ION_TORRENT ''ION_TORRENT''
                 (d\<lparr>runId := run, row := rw, column := col, readNum := rn,
                    name := run @ sep1 @ rw @ sep2 @ col\<rparr>))
           | _ \<Rightarrow> group_error))"

text \<open>The bar-code and read-number branch after the groups are unpacked: \<open>g3\<close> is the bar code
  or, when \<open>sep1\<close> is not \<open>#\<close>, the read number; \<open>g5\<close> is the read number or one stray
  character.\<close>

definition illuminaOldBcRn_fields ::
  "defline \<Rightarrow> regex \<Rightarrow> string \<Rightarrow> string \<Rightarrow> string \<Rightarrow> string \<Rightarrow> string \<Rightarrow> defline" where
  "illuminaOldBcRn_fields d found nm sep1 g3 sep2 g5 =
     (let d1 = (if sep1 = ''#'' then
                  (if sep2 = ''/'' \<or> sep2 = [backslash]
                   then d\<lparr>name := nm, spotGroup := Some g3, readNum := g5\<rparr>
                   else d\<lparr>name := nm, spotGroup := Some g3, readNum := []\<rparr>)
                else d\<lparr>name := nm, spotGroup := None, readNum := g3\<rparr>);
          d2 = (if spotGroup d1 = Some ''0'' then d1\<lparr>spotGroup := Some []\<rparr> else d1)
      in if deflineType d2 = None \<and> saveDeflineType d2
         then d2\<lparr>illuminaOldBcRn := Some found, deflineType := Some ILLUMINA_OLD_BC_RN,
                platform := ''UNDEFINED''\<rparr>
         else d2)"

definition parse_illuminaOldBcRn :: "defline \<Rightarrow> error + defline" where
  "parse_illuminaOldBcRn d =
     (let s = deflineString d;
          found = (if re_matches illuminaOldBcRnOnly_re s then illuminaOldBcRnOnly_re
                   else if re_matches illuminaOldBcOnly_re s then illuminaOldBcOnly_re
                   else illuminaOldRnOnly_re)
      in case (if deflineType d \<noteq> None then illuminaOldBcRn d else Some found) of
           None \<Rightarrow> Inl (PyException ''AttributeError'')
         | Some r \<Rightarrow>
             (case re_match r s of
                None \<Rightarrow> invalid d
              | Some gs \<Rightarrow>
                  (case gs of
                     [Some nm, Some sep1, Some g3, Some sep2, Some g5, es] \<Rightarrow>
                       Inr (illuminaOldBcRn_fields d found nm sep1 g3 sep2 g5)
                   | _ \<Rightarrow> group_error)))"

definition parse_qiimeGeneric :: "defline \<Rightarrow> error + defline" where
  "parse_qiimeGeneric d =
     (case re_match qiimeBc_re (deflineString d) of
        None \<Rightarrow> invalid d
      | Some gs \<Rightarrow>
          (case gs of
             [Some nm, Some sg] \<Rightarrow>
               Inr (latch QIIME_GENERIC ''UNDEFINED'' (d\<lparr>name := nm, spotGroup := Some sg\<rparr>))
           | _ \<Rightarrow> group_error))"

text \<open>The Nanopore branch. \<open>poreFile_filter\<close> and \<open>poreFile_spotGroup\<close> are the processing of a
  present \<open>poreFile\<close> group: the split on \<open>/\<close> or \<open>\\<close>, the filter flag from the first
  chunk, the file name without its path, and the spot group in front of
  \<open>_ch<channel>_\<close>. \<open>normalizePoreRead\<close> is the final \<open>if not self.poreRead ... else\<close> chain;
  the status writer is taken as set, as \<open>getFastqInstance\<close> does.\<close>

definition poreFileChunks :: "string \<Rightarrow> string list" where
  "poreFileChunks pf = split_chars (\<lambda>c. c = CHR ''/'' \<or> c = backslash) pf"

definition poreFile_filter :: "string \<Rightarrow> str_or_int \<Rightarrow> str_or_int" where
  "poreFile_filter pf old =
     (let chunks = poreFileChunks pf in
      if 1 < length chunks then
        (if hd chunks = ''fail'' then PInt 1
         else if hd chunks = ''pass'' then PInt 0
         else old)
      else old)"

definition poreFile_name :: "string \<Rightarrow> string" where
  "poreFile_name pf =
     (let chunks = poreFileChunks pf in if 1 < length chunks then last chunks else pf)"

definition poreFile_spotGroup :: "string \<Rightarrow> string \<Rightarrow> string option \<Rightarrow> string option" where
  "poreFile_spotGroup fname ch old =
     (let chLoc = py_rfind fname (''_ch'' @ ch @ ''_'')
      in if chLoc \<noteq> -1 then Some (py_slice fname 0 chLoc) else old)"

definition unknownPoreRead :: error where
  "unknownPoreRead = SysExit ''Unable to determine nanopore read type''"

definition normalizePoreRead :: "string option \<Rightarrow> string \<Rightarrow> error + string" where
  "normalizePoreRead pr fname =
     (if pr = None \<or> pr = Some [] then
        (if fname \<noteq> [] then
           (if py_in ''.2D.'' fname then Inr ''2D''
            else if py_in ''.template.'' fname then Inr ''template''
            else if py_in ''.complement.'' fname then Inr ''complement''
            else Inl unknownPoreRead)
         else Inl unknownPoreRead)
      else if pr = Some ''_twodirections'' \<or> pr = Some ''-2D'' then Inr ''2D''
      else if pr = Some ''_template'' \<or> pr = Some ''-1D'' then Inr ''template''
      else Inr ''complement'')"

definition nanopore_fields ::
  "defline \<Rightarrow> regex \<Rightarrow> string \<Rightarrow> string \<Rightarrow> string \<Rightarrow> string \<Rightarrow> string \<Rightarrow> string option
     \<Rightarrow> string option \<Rightarrow> error + defline" where
  "nanopore_fields d found poreStart ch poreMid rno poreEnd pr pf =
     (let d1 = d\<lparr>channel := ch, poreFile := pf,
                 readNo := (if poreMid = ''_file'' then PInt 0 else PStr rno),
                 name := poreStart @ ch @ poreMid @ rno @ poreEnd\<rparr>;
          d2 = (case pf of
                  None \<Rightarrow> d1
                | Some f \<Rightarrow>
                    if f = [] then d1
                    else d1\<lparr>filterRead := poreFile_filter f (filterRead d1),
                            poreFile := Some (poreFile_name f),
                            spotGroup := poreFile_spotGroup (poreFile_name f) ch (spotGroup d1)\<rparr>)
      in case normalizePoreRead pr (filename d2) of
           Inl e \<Rightarrow> Inl e
         | Inr kind \<Rightarrow>
             (let d3 = d2\<lparr>poreRead := kind\<rparr>
              in Inr (if deflineType d3 = None \<and> saveDeflineType d3
                      then d3\<lparr>deflineType := Some NANOPORE, nanopore := found,
                             platform := ''NANOPORE''\<rparr>
                      else d3)))"

definition parse_nanopore :: "defline \<Rightarrow> error + defline" where
  "parse_nanopore d =
     (let s = deflineString d;
          found = (if re_matches (nanopore d) s then nanopore d
                   else if re_matches nanopore2_re s then nanopore2_re
                   else nanopore3_re)
      in case re_match (if deflineType d \<noteq> None then nanopore d else found) s of
           None \<Rightarrow> invalid d
         | Some gs \<Rightarrow>
             (case gs of
                [Some poreStart, Some ch, Some poreMid, Some rno, Some poreEnd, pr, pf, es] \<Rightarrow>
                  nanopore_fields d found poreStart ch poreMid rno poreEnd pr pf
              | _ \<Rightarrow> group_error))"

definition parse_readIdBarcode :: "defline \<Rightarrow> error + defline" where
  "parse_readIdBarcode d =
     (case re_match readIdBarcode_re (deflineString d) of
        None \<Rightarrow> invalid d
      | Some gs \<Rightarrow>
          (case gs of
             [Some qn, Some pre, Some nm, Some sg, es] \<Rightarrow>
               Inr (latch READID_BARCODE ''UNDEFINED''
                 (d\<lparr>qiimeName := qn, prefix := pre, spotGroup := Some sg,
                    name := (if pre \<noteq> [] \<and>
                                \<not> py_in (py_slice pre 0 (int (length pre) - 2)) qn
                             then pre @ nm else nm)\<rparr>))
           | _ \<Rightarrow> group_error))"

definition parse_sangerNewbler :: "defline \<Rightarrow> error + defline" where
  "parse_sangerNewbler d =
     (case re_match sangerNewbler_re (deflineString d) of
        None \<Rightarrow> invalid d
      | Some gs \<Rightarrow>
          (case gs of
             [Some localName, Some nm, Some dr, es] \<Rightarrow>
               (case dr of
                  [] \<Rightarrow> Inl (PyException ''IndexError'')
                | c # _ \<Rightarrow>
                    if c = CHR ''f'' \<or> c = CHR ''F'' then
                      Inr (latch SANGER_NEWBLER ''CAPILLARY''
                             (d\<lparr>name := nm, dir := dr, readNum := ''1''\<rparr>))
                    else if c = CHR ''r'' \<or> c = CHR ''R'' then
                      Inr (latch SANGER_NEWBLER ''CAPILLARY''
                             (d\<lparr>name := nm, dir := dr, readNum := ''2''\<rparr>))
                    else Inl (SysExit ''Unexpected sanger read dir value''))
           | _ \<Rightarrow> group_error))"

definition parse_undefined :: "defline \<Rightarrow> error + defline" where
  "parse_undefined d =
     (case re_match undefined_re (deflineString d) of
        None \<Rightarrow> invalid d
      | Some gs \<Rightarrow>
          (case gs of
             [Some nm, es] \<Rightarrow> Inr (latch UNDEFINED ''UNDEFINED'' (d\<lparr>name := nm\<rparr>))
           | _ \<Rightarrow> group_error))"

text \<open>The cascade. A latched \<open>deflineType\<close> selects its branch; with none latched the first
  branch whose pattern matches is taken, in the order of the source.\<close>

definition parseDeflineString :: "defline \<Rightarrow> string \<Rightarrow> error + defline" where
  "parseDeflineString d0 line =
     (let d = (reset d0)\<lparr>deflineStringOrig := line, deflineString := py_strip line\<rparr>;
          t = deflineType d;
          s = deflineString d
      in if line = [] then Inr d
         else if t = Some HELICOS \<or> (t = None \<and> re_matches helicos_re s) then parse_helicos d
         else if t = Some ABSOLID \<or> (t = None \<and> re_matches abSolid_re s) then parse_abSolid d
         else if t = Some ILLUMINA_NEW \<or> t = Some ILLUMINA_NEW_DOUBLE \<or> t = Some ILLUMINA_NEW_OLD \<or>
                 (t = None \<and> (re_matches (illuminaNew d) s \<or> re_matches illuminaNewWithJunk_re s \<or>
                    re_matches illuminaNewNoPrefix_re s))
           then parse_illuminaNew d
         else if t = Some ILLUMINA_OLD \<or>
                 (t = None \<and> (re_matches illuminaOldColon_re s \<or>
                    re_matches illuminaOldUnderscore_re s \<or> re_matches illuminaOldNoPrefix_re s \<or>
                    re_matches illuminaOldWithJunk2_re s))
           then parse_illuminaOld d
         else if t = Some QIIME_ILLUMINA_NEW \<or> t = Some QIIME_ILLUMINA_NEW_BC \<or>
                 t = Some QIIME_ILLUMINA_NEW_DBL \<or> t = Some QIIME_ILLUMINA_NEW_DBL_BC \<or>
                 (t = None \<and> (re_matches (qiimeIlluminaNew d) s \<or>
                    re_matches qiimeIlluminaNewPeriods_re s))
           then parse_qiimeIlluminaNew d
         else if t = Some QIIME_ILLUMINA_OLD \<or> t = Some QIIME_ILLUMINA_OLD_BC \<or>
                 (t = None \<and> re_matches qiimeIlluminaOld_re s)
           then parse_qiimeIlluminaOld d
         else if t = Some LS454 \<or> (t = None \<and> re_matches ls454_re s) then parse_ls454 d
         else if t = Some QIIME_454 \<or> t = Some QIIME_454_BC \<or>
                 (t = None \<and> re_matches qiime454_re s)
           then parse_qiime454 d
         else if t = Some PACBIO \<or> (t = None \<and> re_matches pacbio_re s) then parse_pacbio d
         else if t = Some ION_TORRENT \<or> (t = None \<and> re_matches ionTorrent_re s)
           then parse_ionTorrent d
         else if t = Some ILLUMINA_OLD_BC_RN \<or>
                 (t = None \<and> (re_matches illuminaOldBcRnOnly_re s \<or>
                    re_matches illuminaOldBcOnly_re s \<or> re_matches illuminaOldRnOnly_re s))
           then parse_illuminaOldBcRn d
         else if t = Some QIIME_GENERIC \<or> (t = None \<and> re_matches qiimeBc_re s)
           then parse_qiimeGeneric d
         else if t = Some NANOPORE \<or>
                 (t = None \<and> (re_matches (nanopore d) s \<or> re_matches nanopore2_re s))
           then parse_nanopore d
         else if t = Some READID_BARCODE \<or> (t = None \<and> re_matches readIdBarcode_re s)
           then parse_readIdBarcode d
         else if t = Some SANGER_NEWBLER \<or> (t = None \<and> re_matches sangerNewbler_re s)
           then parse_sangerNewbler d
         else if t = Some UNDEFINED \<or> (t = None \<and> re_matches undefined_re s)
           then parse_undefined d
         else invalid d)"

section \<open>Quality strings: class \<open>Qual\<close>\<close>

record qual =
  qual_Q :: string
  length_Q :: int
  isValid_Q :: bool
  isNumQual_Q :: bool
  isAscQual_Q :: bool
  offset_Q :: int
  minQual_Q :: int
  maxQual_Q :: int
  minOrd_Q :: int
  maxOrd_Q :: int

text \<open>\<open>Qual('')\<close>.\<close>

definition new_Qual :: qual where
  "new_Qual = \<lparr> qual_Q = [], length_Q = 0, isValid_Q = False, isNumQual_Q = False,
     isAscQual_Q = False, offset_Q = 33, minQual_Q = 1000, maxQual_Q = 0, minOrd_Q = 1000,
     maxOrd_Q = 0 \<rparr>"

definition isInt :: "string \<Rightarrow> bool" where
  "isInt qStr = (case qStr of
       [] \<Rightarrow> False
     | c # rest \<Rightarrow> if c = CHR ''-'' \<or> c = CHR ''+'' then py_isdigit rest else py_isdigit qStr)"

definition tooHigh :: error where
  "tooHigh = SysExit ''Numerical quality is too high''"

text \<open>The loop over \<open>self.qual.split()\<close>; \<open>break\<close> ends it with \<open>length = 0\<close>, \<open>sys.exit\<close> with
  the error.\<close>

fun numQualLoop :: "qual \<Rightarrow> string list \<Rightarrow> error + qual" where
  "numQualLoop q [] = Inr q"
| "numQualLoop q (t # ts) =
     (if isInt t then
        (case py_int t of
           Inl e \<Rightarrow> Inl e
         | Inr v \<Rightarrow>
             (let q1 = (if v < minQual_Q q then q\<lparr>minQual_Q := v\<rparr> else q);
                  q2 = (if maxQual_Q q1 < v then q1\<lparr>maxQual_Q := v\<rparr> else q1);
                  q3 = q2\<lparr>length_Q := length_Q q2 + 1\<rparr>
              in if 100 < maxQual_Q q3 then Inl tooHigh else numQualLoop q3 ts))
      else Inr (q\<lparr>length_Q := 0\<rparr>))"

fun ordLoop :: "qual \<Rightarrow> string \<Rightarrow> qual" where
  "ordLoop q [] = q"
| "ordLoop q (c # cs) =
     (let o1 = int (ord c);
          q1 = (if o1 < minOrd_Q q then q\<lparr>minOrd_Q := o1\<rparr> else q);
          q2 = (if maxOrd_Q q1 < o1 then q1\<lparr>maxOrd_Q := o1\<rparr> else q1)
      in ordLoop q2 cs)"

text \<open>\<open>Qual.parseQual\<close>; the returned object carries the return value in \<open>isValid_Q\<close>.\<close>

definition parseQual :: "qual \<Rightarrow> string \<Rightarrow> error + qual" where
  "parseQual q0 qualString =
     (let q = q0\<lparr>qual_Q := py_strip qualString, length_Q := 0, isValid_Q := False,
                 minQual_Q := 1000, maxQual_Q := 0, minOrd_Q := 1000, maxOrd_Q := 0\<rparr>
      in if length (qual_Q q) = 0 then Inr q
         else if isNumQual_Q q \<or> (\<not> isAscQual_Q q \<and> CHR '' '' \<in> set (qual_Q q)) then
           (case numQualLoop q (py_split (qual_Q q)) of
              Inl e \<Rightarrow> Inl e
            | Inr q1 \<Rightarrow>
                Inr (if length_Q q1 \<noteq> 0 then q1\<lparr>isValid_Q := True, isNumQual_Q := True\<rparr> else q1))
         else
           (let q1 = ordLoop q (qual_Q q)
            in Inr (if maxOrd_Q q1 \<le> 126
                    then q1\<lparr>length_Q := int (length (qual_Q q1)),
                           minQual_Q := minOrd_Q q1 - offset_Q q1,
                           maxQual_Q := maxOrd_Q q1 - offset_Q q1,
                           isValid_Q := True, isAscQual_Q := True\<rparr>
                    else q1)))"

section \<open>Readers: class \<open>FastqReader\<close>\<close>

text \<open>The attributes of a reader that the modelled functions use. \<open>handle\<close> is the text of
  the file from the current position on; \<open>seqOrig\<close> and \<open>qualOrig\<close> are \<open>None\<close> before the
  first record. The warnings written to the status writer are output only and are not
  modelled.\<close>

record reader =
  filename_R :: string
  handle :: string
  defline_R :: defline
  deflineQual :: "defline option"
  deflineCheck :: defline
  deflineStringSeq :: string
  savedDeflineString :: string
  savedDeflineStringSeq :: string
  seqOrig :: "string option"
  seq_R :: string
  qualOrig :: "string option"
  qual_R :: string
  length_R :: int
  lengthQual :: int
  spotCount_R :: int
  eof :: bool
  csKey :: string

text \<open>\<open>FastqReader(filename, handle)\<close> on a file without header lines.\<close>

definition new_reader :: "string \<Rightarrow> string \<Rightarrow> reader" where
  "new_reader fname text =
     \<lparr> filename_R = fname, handle = text, defline_R = new_defline\<lparr>filename := fname\<rparr>,
       deflineQual = None, deflineCheck = new_defline\<lparr>filename := fname\<rparr>,
       deflineStringSeq = [], savedDeflineString = [], savedDeflineStringSeq = [],
       seqOrig = None, seq_R = [], qualOrig = None, qual_R = [], length_R = 0, lengthQual = 0,
       spotCount_R = 0, eof = False, csKey = [] \<rparr>"

text \<open>\<open>handle.readline()\<close>: the next line with its newline, \<open>''\<close> at the end of the file,
  and the rest of the file.\<close>

fun readline :: "string \<Rightarrow> string \<times> string" where
  "readline [] = ([], [])"
| "readline (c # s) =
     (if c = newline then ([c], s) else (case readline s of (l, r) \<Rightarrow> (c # l, r)))"

definition unableToParse :: error where
  "unableToParse = SysExit ''Unable to parse defline in 1000 lines or before eof''"

text \<open>\<open>FastqReader.findValidDefline(False)\<close>: the loop, with \<open>count\<close> the value of the counter
  on entry to a pass.\<close>

function findValidDefline_loop :: "reader \<Rightarrow> int \<Rightarrow> error + reader" where
  "findValidDefline_loop r count =
     (case parseDeflineString (defline_R r) (py_strip (fst (readline (handle r)))) of
        Inl e \<Rightarrow> Inl e
      | Inr d \<Rightarrow>
          (let r1 = r\<lparr>handle := snd (readline (handle r)),
                      deflineStringSeq := py_strip (fst (readline (handle r))), defline_R := d\<rparr>
           in if isValid d then Inr (r1\<lparr>savedDeflineString := deflineStringSeq r1\<rparr>)
              else if count + 1 = 1000 \<or> fst (readline (handle r)) = [] then Inl unableToParse
              else findValidDefline_loop r1 (count + 1)))"
  by pat_completeness auto

lemma readline_length:
  "length (fst (readline h)) + length (snd (readline h)) = length h"
  by (induction h) (auto split: prod.splits)

lemma readline_shorter:
  "fst (readline h) \<noteq> [] \<Longrightarrow> length (snd (readline h)) < length h"
  using readline_length [of h] by (cases "fst (readline h)") auto

termination findValidDefline_loop
  by (relation "measure (\<lambda>(r, count). length (handle r))") (auto simp: readline_shorter)

text \<open>\<open>FastqReader.processSeqDefline\<close> and \<open>FastqReader.findValidDefline\<close>.\<close>

definition processSeqDefline :: "reader \<Rightarrow> error + reader" where
  "processSeqDefline r =
     (let r1 = (if savedDeflineString r \<noteq> [] then r\<lparr>deflineStringSeq := savedDeflineString r\<rparr>
                else if savedDeflineStringSeq r \<noteq> []
                  then r\<lparr>deflineStringSeq := savedDeflineStringSeq r, savedDeflineStringSeq := []\<rparr>
                else r\<lparr>deflineStringSeq := py_strip (fst (readline (handle r))),
                       handle := snd (readline (handle r))\<rparr>)
      in case parseDeflineString (defline_R r1) (deflineStringSeq r1) of
           Inl e \<Rightarrow> Inl e
         | Inr d \<Rightarrow>
             if isValid d then Inr (r1\<lparr>defline_R := d\<rparr>)
             else findValidDefline_loop (r1\<lparr>defline_R := d\<rparr>) 0)"

definition findValidDefline :: "reader \<Rightarrow> bool \<Rightarrow> error + reader" where
  "findValidDefline r callProcessSeqDefline =
     (case findValidDefline_loop r 0 of
        Inl e \<Rightarrow> Inl e
      | Inr r1 \<Rightarrow> if callProcessSeqDefline then processSeqDefline r1 else Inr r1)"

section \<open>The spot writer: class \<open>FastqSpotWriter\<close>\<close>

text \<open>The data of a column: \<open>bytes\<close>, or an \<open>array.array\<close> of type code \<open>I\<close>, \<open>B\<close> or \<open>b\<close>. A
  table maps the name of each column it has to the column's \<open>data\<close> entry, \<open>None\<close> until
  it is first set; writing to a column the table does not have raises \<open>KeyError\<close>.\<close>

datatype coldata = Bytes string | ArrayI "int list" | ArrayB "int list" | Arrayb "int list"

type_synonym table = "string \<Rightarrow> coldata option option"

definition set_data :: "table \<Rightarrow> string \<Rightarrow> coldata \<Rightarrow> error + table" where
  "set_data dst col v = (if dst col = None then Inl (PyException ''KeyError'')
                         else Inr (dst(col := Some (Some v))))"

text \<open>\<open>array.array(code, values)\<close>: a value outside the item type raises \<open>OverflowError\<close>
  (\<open>I\<close> is taken as 32 bits wide).\<close>

definition array_I :: "int list \<Rightarrow> error + coldata" where
  "array_I xs = (if list_all (\<lambda>x. 0 \<le> x \<and> x < 4294967296) xs then Inr (ArrayI xs)
                 else Inl (PyException ''OverflowError''))"

definition array_B :: "int list \<Rightarrow> error + coldata" where
  "array_B xs = (if list_all (\<lambda>x. 0 \<le> x \<and> x < 256) xs then Inr (ArrayB xs)
                 else Inl (PyException ''OverflowError''))"

record writer =
  platformString :: string
  platform_W :: int
  orphanReads :: bool
  read1IsTechnical :: bool
  read2IsTechnical :: bool
  lengthsProvided :: bool
  readStarts :: "int list"
  readLengths :: "int list"
  readTypes :: "int list"
  spotCount_W :: int
  labels :: string
  labelStarts :: "int list"
  labelLengths :: "int list"
  mixedDeflines :: bool
  isNumQual_W :: bool
  isColorSpace_W :: bool
  logOdds :: bool
  readColumn :: string
  offset_W :: int
  offsetProvided :: bool
  minQual_W :: int
  maxQual_W :: int
  setClips_W :: bool
  qualityExpression :: string
  dst :: table
  dst2D :: "table option"

text \<open>The SEQUENCE table of a writer for base-space reads without labels, clips or
  Nanopore columns, as \<open>openGeneralWriter\<close> leaves it.\<close>

definition sequence_table :: table where
  "sequence_table col =
     (if col \<in> set [''READ'', ''READ_START'', ''READ_LENGTH'', ''READ_TYPE'', ''READ_FILTER'',
                     ''QUALITY'', ''NAME'', ''SPOT_GROUP'', ''PLATFORM'']
      then Some None else None)"

text \<open>\<open>FastqSpotWriter()\<close> followed by \<open>openGeneralWriter\<close> with no option set.\<close>

definition new_writer :: writer where
  "new_writer = \<lparr> platformString = [], platform_W = 0, orphanReads = False,
     read1IsTechnical = False, read2IsTechnical = False, lengthsProvided = False,
     readStarts = [], readLengths = [], readTypes = [1, 1], spotCount_W = 0, labels = [],
     labelStarts = [0, 0], labelLengths = [0, 0], mixedDeflines = False, isNumQual_W = False,
     isColorSpace_W = False, logOdds = False, readColumn = ''READ'', offset_W = 33,
     offsetProvided = False, minQual_W = 1000, maxQual_W = 0, setClips_W = False,
     qualityExpression = ''(INSDC:quality:text:phred_33)QUALITY'',
     dst = sequence_table, dst2D = None \<rparr>"

text \<open>Sequencing of fallible steps.\<close>

definition bind :: "error + 'a \<Rightarrow> ('a \<Rightarrow> error + 'b) \<Rightarrow> error + 'b" where
  "bind m f = (case m of Inl e \<Rightarrow> Inl e | Inr x \<Rightarrow> f x)"




text \<open>\<open>getNumQualArray\<close>: the array starts as zeros, one per token, and the loop converts and
  stores token by token, so that the first token that is not an integer (\<open>ValueError\<close>) or
  does not fit the item type (\<open>OverflowError\<close>, signed bytes for log odds and unsigned
  bytes otherwise) ends the call. The loop returns the values stored.\<close>

fun getNumQualArray_loop :: "bool \<Rightarrow> string list \<Rightarrow> error + int list" where
  "getNumQualArray_loop lo [] = Inr []"
| "getNumQualArray_loop lo (qualValString # rest) =
     bind (py_int qualValString)
       (\<lambda>v. if (if lo then -128 \<le> v \<and> v < 128 else 0 \<le> v \<and> v < 256)
             then bind (getNumQualArray_loop lo rest) (\<lambda>vs. Inr (v # vs))
             else Inl (PyException ''OverflowError''))"

definition getNumQualArray :: "writer \<Rightarrow> string \<Rightarrow> error + coldata" where
  "getNumQualArray sw qualString =
     bind (getNumQualArray_loop (logOdds sw) (py_split qualString))
       (\<lambda>vs. Inr (if logOdds sw then Arrayb vs else ArrayB vs))"

text \<open>\<open>setDstQual\<close> and \<open>processPairFastqSpot\<close>.\<close>

definition setDstQual :: "writer \<Rightarrow> string \<Rightarrow> table \<Rightarrow> error + table" where
  "setDstQual sw qualString t =
     (if isNumQual_W sw then bind (getNumQualArray sw qualString) (set_data t ''QUALITY'')
      else bind (encode_ascii qualString) (\<lambda>b. set_data t ''QUALITY'' (Bytes b)))"

definition processPairFastqSpot :: "writer \<Rightarrow> reader \<Rightarrow> reader \<Rightarrow> error + writer \<times> reader" where
  "processPairFastqSpot sw fastq1 fastq2 =
     bind (encode_ascii (seq_R fastq1 @ seq_R fastq2))
       (\<lambda>b. bind (set_data (dst sw) (readColumn sw) (Bytes b))
       (\<lambda>t1. bind (if isColorSpace_W sw
                    then bind (encode_ascii (csKey fastq1 @ csKey fastq2))
                           (\<lambda>k. set_data t1 ''CS_KEY'' (Bytes k))
                    else Inr t1)
       (\<lambda>t2. bind (array_I [0, int (length (seq_R fastq1))])
       (\<lambda>starts. bind (set_data t2 ''READ_START'' starts)
       (\<lambda>t3. bind (array_I [int (length (seq_R fastq1)), int (length (seq_R fastq2))])
       (\<lambda>lens. bind (set_data t3 ''READ_LENGTH'' lens)
       (\<lambda>t4. bind (if truthy (filterRead (defline_R fastq1)) \<or> truthy (filterRead (defline_R fastq2))
                    then bind (array_B [1, 1]) (set_data t4 ''READ_FILTER'')
                    else bind (array_B [0, 0]) (set_data t4 ''READ_FILTER''))
       (\<lambda>t5. (let fastq1' = (if isNumQual_W sw \<and> qual_R fastq1 \<noteq> [] \<and> qual_R fastq2 \<noteq> []
                             then fastq1\<lparr>qual_R := qual_R fastq1 @ '' ''\<rparr> else fastq1)
              in bind (setDstQual sw (qual_R fastq1' @ qual_R fastq2) t5)
                   (\<lambda>t6. Inr (sw\<lparr>dst := t6\<rparr>, fastq1')))))))))))"

section \<open>Length repair and the quality prescan\<close>

text \<open>\<open>checkFastqLengths\<close>; the global \<open>sw\<close> is the first argument, the result pairs the
  returned truth value with the reader as the function leaves it.\<close>

definition checkFastqLengths :: "writer \<Rightarrow> reader \<Rightarrow> error + bool \<times> reader" where
  "checkFastqLengths sw fastq =
     (if eof fastq then Inr (False, fastq)
      else if length_R fastq \<noteq> lengthQual fastq then
        (let dc = (deflineCheck fastq)\<lparr>deflineType := deflineType (defline_R fastq),
                                       platform := platform (defline_R fastq)\<rparr>;
             f1 = fastq\<lparr>deflineCheck := dc\<rparr>
         in bind (if py_slice (qual_R f1) 0 2 = py_slice (deflineString (defline_R f1)) 0 2
                  then bind (parseDeflineString dc (qual_R f1))
                         (\<lambda>dc'. Inr (isValid dc', f1\<lparr>deflineCheck := dc'\<rparr>))
                  else Inr (False, f1))
              (\<lambda>(missing, f2).
                 (let f3 =
                    (if missing then
                       (if isNumQual_W sw
                        then f2\<lparr>savedDeflineString := qual_R f2, qual_R := ''30''\<rparr>
                               \<lparr>qual_R := py_times '' 30'' (length_R f2 - 1)\<rparr>
                        else f2\<lparr>savedDeflineString := qual_R f2,
                               qual_R := py_times ''?'' (length_R f2)\<rparr>)
                     else if lengthQual f2 < length_R f2 then
                       (if isNumQual_W sw
                        then f2\<lparr>qual_R := qual_R f2 @
                                 py_times '' 30'' (length_R f2 - lengthQual f2)\<rparr>
                        else f2\<lparr>qual_R := qual_R f2 @
                                 py_times ''?'' (length_R f2 - lengthQual f2)\<rparr>)
                     else if length_R f2 < lengthQual f2 then
                       (if isNumQual_W sw
                        then f2\<lparr>qual_R := py_join '' ''
                                 (py_slice (py_split (qual_R f2)) 0 (length_R f2))\<rparr>
                        else f2\<lparr>qual_R := py_slice (qual_R f2) 0 (length_R f2)\<rparr>)
                     else f2)
                  in Inr (True, f3\<lparr>lengthQual := length_R f3\<rparr>))))
      else Inr (False, fastq))"

text \<open>\<open>FastqSpotWriter.setQualityOffset\<close>; the offset is a string from the command line or an
  integer from \<open>processFiles\<close>.\<close>

definition invalidOffset :: error where
  "invalidOffset = SysExit ''Invalid offset determined or specified''"

definition offset33LogOdds :: error where
  "offset33LogOdds = SysExit ''Combining 33 offset with log odds is not yet supported''"

definition setQualityOffset :: "writer \<Rightarrow> str_or_int \<Rightarrow> bool \<Rightarrow> error + writer" where
  "setQualityOffset sw offset0 provided =
     (let offset = (if offset0 = PStr ''PHRED_0'' \<or> offset0 = PStr ''0'' then PInt 0
                    else if offset0 = PStr ''PHRED_33'' \<or> offset0 = PStr ''33'' then PInt 33
                    else if offset0 = PStr ''PHRED_64'' \<or> offset0 = PStr ''64'' then PInt 64
                    else offset0)
      in case offset of
           PStr x \<Rightarrow> Inl invalidOffset
         | PInt n \<Rightarrow>
             if n \<noteq> 0 \<and> n \<noteq> 33 \<and> n \<noteq> 64 then Inl invalidOffset
             else
               (let sw1 = sw\<lparr>offset_W := n\<rparr> in
                bind (if n = 64 then
                        Inr (sw1\<lparr>qualityExpression :=
                               (if logOdds sw1 then ''(INSDC:quality:text:log_odds_64)QUALITY''
                                else ''(INSDC:quality:text:phred_64)QUALITY'')\<rparr>)
                      else if n = 0 then
                        Inr (sw1\<lparr>qualityExpression :=
                               (if logOdds sw1 then ''(INSDC:quality:log_odds)QUALITY''
                                else ''(INSDC:quality:phred)QUALITY''),
                                isNumQual_W := True\<rparr>)
                      else if n = 33 \<and> logOdds sw1 then Inl offset33LogOdds
                      else Inr sw1)
                  (\<lambda>sw2. Inr (if provided then sw2\<lparr>offsetProvided := True\<rparr> else sw2))))"

text \<open>The end of \<open>processFiles(True)\<close>, lines 4705-4741: the choice of the offset from the
  quality range the prescan accumulated.\<close>

definition chooseQualityOffset :: "writer \<Rightarrow> error + writer" where
  "chooseQualityOffset sw =
     (if isNumQual_W sw then
        (let sw1 = (if isColorSpace_W sw \<and> minQual_W sw = -1 then sw\<lparr>minQual_W := 0\<rparr> else sw);
             sw2 = (if minQual_W sw1 < 0 then sw1\<lparr>logOdds := True\<rparr> else sw1)
         in setQualityOffset sw2 (PInt 0) False)
      else if 25 < minQual_W sw \<and> 45 < maxQual_W sw then
        (let sw1 = (if minQual_W sw + 33 - 64 < 0 then sw\<lparr>logOdds := True\<rparr> else sw)
         in setQualityOffset sw1 (PInt 64) False)
      else setQualityOffset sw (PInt 33) False)"

text \<open>\<open>updateQualRangeAndClipStatus\<close>.\<close>

definition mixedQuality :: error where
  "mixedQuality = SysExit ''Possible mixed numerical and non-numerical quality''"

definition seqChanged :: "reader \<Rightarrow> error + bool" where
  "seqChanged f = (case seqOrig f of
       None \<Rightarrow> Inl (PyException ''AttributeError'')
     | Some so \<Rightarrow> Inr (seq_R f \<noteq> py_strip so))"

definition updateQualRangeAndClipStatus :: "writer \<Rightarrow> reader \<Rightarrow> reader option \<Rightarrow> error + writer" where
  "updateQualRangeAndClipStatus sw fastq1 fastq2 =
     (if qualOrig fastq1 = None \<or> qualOrig fastq1 = Some [] \<or>
         (case fastq2 of None \<Rightarrow> False
          | Some f2 \<Rightarrow> qualOrig f2 = None \<or> qualOrig f2 = Some [])
      then Inr sw
      else
        bind (case fastq2 of
                Some f2 \<Rightarrow>
                  if CHR '' '' \<in> set (qual_R fastq1)
                  then parseQual new_Qual (qual_R fastq1 @ '' '' @ qual_R f2)
                  else parseQual new_Qual (qual_R fastq1 @ qual_R f2)
              | None \<Rightarrow> parseQual new_Qual (qual_R fastq1))
          (\<lambda>q.
             (let sw1 = (if minQual_Q q < minQual_W sw then sw\<lparr>minQual_W := minQual_Q q\<rparr> else sw);
                  sw2 = (if maxQual_W sw1 < maxQual_Q q then sw1\<lparr>maxQual_W := maxQual_Q q\<rparr>
                         else sw1)
              in if isNumQual_W sw2 \<and> \<not> isNumQual_Q q then Inl mixedQuality
                 else
                   (let sw3 = sw2\<lparr>isNumQual_W := isNumQual_Q q\<rparr> in
                    if \<not> setClips_W sw3 \<and> lengthsProvided sw3 then
                      bind (seqChanged fastq1)
                        (\<lambda>c1. if c1 then Inr (sw3\<lparr>setClips_W := True\<rparr>)
                               else (case fastq2 of
                                       None \<Rightarrow> Inr sw3
                                     | Some f2 \<Rightarrow>
                                         bind (seqChanged f2)
                                           (\<lambda>c2. Inr (if c2 then sw3\<lparr>setClips_W := True\<rparr>
                                                        else sw3))))
                    else Inr sw3))))"

text \<open>The loop of \<open>processFastqSpots\<close> with \<open>determineOffsetAndClip\<close> set. The readers' \<open>read\<close>
  methods are not part of this function: the list gives, pass by pass, the two readers as
  the reads at the head of the pass leave them (\<open>None\<close> for no second reader). A pass ends
  the loop at the end of both files or when the first reader has counted 100000 spots; the
  function also stops where the list does.\<close>

fun prescanSpots :: "writer \<Rightarrow> (reader \<times> reader option) list \<Rightarrow> error + writer" where
  "prescanSpots sw [] = Inr sw"
| "prescanSpots sw ((fastq1, fastq2) # passes) =
     (if eof fastq1 \<and> (case fastq2 of None \<Rightarrow> True | Some f2 \<Rightarrow> eof f2) then Inr sw
      else
        (case updateQualRangeAndClipStatus sw fastq1 fastq2 of
           Inl e \<Rightarrow> Inl e
         | Inr sw1 \<Rightarrow> if spotCount_R fastq1 = 100000 then Inr sw1 else prescanSpots sw1 passes))"

section \<open>Auxiliary notions for the properties\<close>

text \<open>The object a fresh \<open>Defline\<close> parser holds after parsing one line (the fresh object
  itself when the parse raises).\<close>

definition parsedDefline :: "string \<Rightarrow> defline" where
  "parsedDefline line =
     (case parseDeflineString new_defline line of Inl e \<Rightarrow> new_defline | Inr d \<Rightarrow> d)"

text \<open>Two deflines carry the same non-empty name.\<close>

definition sameName :: "defline \<Rightarrow> defline \<Rightarrow> bool" where
  "sameName a b = (name a \<noteq> [] \<and> name b \<noteq> [] \<and> name a = name b)"

text \<open>A pair of deflines with the same name is tied when the rule that orders it cannot tell
  the two apart: equal read numbers when both have one; otherwise both Nanopore template
  reads; otherwise, with no pore read and both tag types present, both or neither \<open>F3\<close>;
  otherwise identical defline strings.\<close>

definition tied :: "defline \<Rightarrow> defline \<Rightarrow> bool" where
  "tied a b =
     (name a \<noteq> [] \<and> name a = name b \<and>
      (if readNum a \<noteq> [] \<and> readNum b \<noteq> [] then readNum a = readNum b
       else if poreRead a = ''template'' \<or> poreRead b = ''template''
         then poreRead a = ''template'' \<and> poreRead b = ''template''
       else if poreRead a \<noteq> [] \<or> poreRead b \<noteq> [] then False
       else if tagType a \<noteq> [] \<and> tagType b \<noteq> []
         then (tagType a = ''F3'') = (tagType b = ''F3'')
       else deflineString a = deflineString b))"

text \<open>A token that is an optionally signed run of decimal digits, the integer it denotes,
  and the condition under which \<open>parseQual\<close> takes its numeric branch.\<close>

definition signedInteger :: "string \<Rightarrow> bool" where
  "signedInteger t = (case t of
       [] \<Rightarrow> False
     | c # rest \<Rightarrow> if c = CHR ''-'' \<or> c = CHR ''+'' then rest \<noteq> [] \<and> list_all is_decimal rest
                   else list_all is_decimal t)"

definition tokenValue :: "string \<Rightarrow> int" where
  "tokenValue t = (case py_int t of Inl e \<Rightarrow> 0 | Inr v \<Rightarrow> v)"

definition numericMode :: "qual \<Rightarrow> string \<Rightarrow> bool" where
  "numericMode q s = (isNumQual_Q q \<or> (\<not> isAscQual_Q q \<and> CHR '' '' \<in> set (py_strip s)))"

text \<open>The first reader counts one more spot in every pass, starting after \<open>k\<close>.\<close>

fun countsFrom :: "int \<Rightarrow> (reader \<times> reader option) list \<Rightarrow> bool" where
  "countsFrom k [] = True"
| "countsFrom k (p # passes) = (spotCount_R (fst p) = k + 1 \<and> countsFrom (k + 1) passes)"

text \<open>The minimum the numeric branch tests: a colour-space minimum of -1 counts as 0.\<close>

definition clampedMin :: "writer \<Rightarrow> int" where
  "clampedMin sw = (if isColorSpace_W sw \<and> minQual_W sw = -1 then 0 else minQual_W sw)"

text \<open>A reader after reading a record with the quality line \<open>q\<close> as spot number \<open>n\<close>.\<close>

definition readerAfter :: "string \<Rightarrow> int \<Rightarrow> reader" where
  "readerAfter q n =
     (new_reader ''f.fq'' [])\<lparr>defline_R := parsedDefline ''@r1'', seqOrig := Some ''AC'',
        seq_R := ''AC'', qualOrig := Some (q @ [newline]), qual_R := q, length_R := 2,
        lengthQual := 2, spotCount_R := n\<rparr>"

text \<open>The number of quality values of a read as the readers count it (\<open>readQual\<close>: tokens
  for numeric quality, characters otherwise), and the number of values in a column.\<close>

definition qualLen :: "writer \<Rightarrow> string \<Rightarrow> nat" where
  "qualLen sw q = (if isNumQual_W sw then length (py_split q) else length q)"

fun qualityCount :: "coldata option option \<Rightarrow> nat" where
  "qualityCount (Some (Some (Bytes b))) = length b"
| "qualityCount (Some (Some (ArrayI xs))) = length xs"
| "qualityCount (Some (Some (ArrayB xs))) = length xs"
| "qualityCount (Some (Some (Arrayb xs))) = length xs"
| "qualityCount other = 0"

text \<open>A reader holding one read of the spot \<open>@r1\<close>.\<close>

definition pairReader :: "string \<Rightarrow> string \<Rightarrow> reader" where
  "pairReader s q =
     (new_reader ''f.fq'' [])\<lparr>defline_R := parsedDefline ''@r1'', seq_R := s, qual_R := q\<rparr>"


section \<open>Verified properties\<close>

subsection \<open>READ_TYPE of paired files\<close>


subsection \<open>Pairing symmetry\<close>

lemma str_less_irrefl: "\<not> str_less a a"
  by (induction a) auto

lemma str_less_asym: "str_less a b \<Longrightarrow> \<not> str_less b a"
  by (induction a b rule: str_less.induct) auto

lemma str_less_total: "str_less a b \<or> a = b \<or> str_less b a"
  by (induction a b rule: str_less.induct) (auto simp: ord_def)



lemma paired_noname: "\<not> sameName a b \<Longrightarrow> isPairedDeflines a b False = PyBool False"
  by (auto simp: isPairedDeflines_def sameName_def)

lemma paired_readNum:
  "sameName a b \<Longrightarrow> readNum a \<noteq> [] \<Longrightarrow> readNum b \<noteq> [] \<Longrightarrow>
   isPairedDeflines a b False = (if str_less (readNum a) (readNum b) then PyInt 1 else PyInt 2)"
  by (auto simp: isPairedDeflines_def sameName_def)

lemma paired_template1:
  "sameName a b \<Longrightarrow> \<not> (readNum a \<noteq> [] \<and> readNum b \<noteq> []) \<Longrightarrow> poreRead a = ''template'' \<Longrightarrow>
   isPairedDeflines a b False = PyInt 1"
  by (auto simp: isPairedDeflines_def sameName_def)

lemma paired_template2:
  "sameName a b \<Longrightarrow> \<not> (readNum a \<noteq> [] \<and> readNum b \<noteq> []) \<Longrightarrow> poreRead a \<noteq> ''template'' \<Longrightarrow>
   poreRead b = ''template'' \<Longrightarrow> isPairedDeflines a b False = PyInt 2"
  by (auto simp: isPairedDeflines_def sameName_def)

lemma paired_pore:
  "sameName a b \<Longrightarrow> \<not> (readNum a \<noteq> [] \<and> readNum b \<noteq> []) \<Longrightarrow> poreRead a \<noteq> ''template'' \<Longrightarrow>
   poreRead b \<noteq> ''template'' \<Longrightarrow> poreRead a \<noteq> [] \<or> poreRead b \<noteq> [] \<Longrightarrow>
   isPairedDeflines a b False = PyBool False"
  by (auto simp: isPairedDeflines_def sameName_def)

lemma paired_tag:
  "sameName a b \<Longrightarrow> \<not> (readNum a \<noteq> [] \<and> readNum b \<noteq> []) \<Longrightarrow> poreRead a = [] \<Longrightarrow>
   poreRead b = [] \<Longrightarrow> tagType a \<noteq> [] \<Longrightarrow> tagType b \<noteq> [] \<Longrightarrow>
   isPairedDeflines a b False =
     (if tagType b = ''F3'' \<and> tagType a \<noteq> ''F3'' then PyInt 2 else PyInt 1)"
  by (auto simp: isPairedDeflines_def sameName_def)

lemma paired_string:
  "sameName a b \<Longrightarrow> \<not> (readNum a \<noteq> [] \<and> readNum b \<noteq> []) \<Longrightarrow> poreRead a = [] \<Longrightarrow>
   poreRead b = [] \<Longrightarrow> \<not> (tagType a \<noteq> [] \<and> tagType b \<noteq> []) \<Longrightarrow>
   isPairedDeflines a b False =
     (if str_less (deflineString a) (deflineString b) then PyInt 1
      else if str_less (deflineString b) (deflineString a) then PyInt 2 else PyInt 1)"
  by (auto simp: isPairedDeflines_def sameName_def)

lemma sameName_sym: "sameName a b = sameName b a"
  by (auto simp: sameName_def)

lemma tied_sameName: "tied a b \<Longrightarrow> sameName a b"
  by (auto simp: tied_def sameName_def)

text \<open>Claim C2, as stated: for every pair of valid deflines \<open>a\<close>, \<open>b\<close>,
  \<open>isPairedDeflines(a, b, False) == 1\<close> if and only if \<open>isPairedDeflines(b, a, False) == 2\<close>.
  It fails on a tie: the defline \<open>@r1\<close> paired with itself (two files whose reads carry
  the same header) gives 1 in both orders.\<close>

theorem C2_counterexample:
  "isValid (parsedDefline ''@r1'') \<and>
   py_eq (isPairedDeflines (parsedDefline ''@r1'') (parsedDefline ''@r1'') False) 1 \<and>
   \<not> py_eq (isPairedDeflines (parsedDefline ''@r1'') (parsedDefline ''@r1'') False) 2"
  by code_simp

text \<open>Claim C2, amended: for all deflines \<open>a\<close> and \<open>b\<close>, the equivalence of
  \<open>isPairedDeflines(a, b, False) == 1\<close> and \<open>isPairedDeflines(b, a, False) == 2\<close> holds exactly
  when the pair is not tied.\<close>

theorem C2_pairing_symmetry_unless_tied:
  "(py_eq (isPairedDeflines a b False) 1 \<longleftrightarrow> py_eq (isPairedDeflines b a False) 2) \<longleftrightarrow> \<not> tied a b"
proof (cases "sameName a b")
  case False
  then have "\<not> sameName b a" by (simp add: sameName_sym)
  with False show ?thesis
    using tied_sameName [of a b] by (auto simp: paired_noname py_eq_def)
next
  case sn: True
  then have sn': "sameName b a" by (simp add: sameName_sym)
  have nm: "name a \<noteq> []" "name a = name b" using sn by (auto simp: sameName_def)
  show ?thesis
  proof (cases "readNum a \<noteq> [] \<and> readNum b \<noteq> []")
    case True
    then have t: "tied a b \<longleftrightarrow> readNum a = readNum b" using nm by (simp add: tied_def)
    from True show ?thesis
      using str_less_total [of "readNum a" "readNum b"] str_less_asym [of "readNum a" "readNum b"]
        str_less_asym [of "readNum b" "readNum a"] str_less_irrefl [of "readNum a"]
      by (auto simp: paired_readNum [OF sn] paired_readNum [OF sn'] t py_eq_def)
  next
    case rn: False
    then have rn': "\<not> (readNum b \<noteq> [] \<and> readNum a \<noteq> [])" by auto
    show ?thesis
    proof (cases "poreRead a = ''template''")
      case pa: True
      show ?thesis
      proof (cases "poreRead b = ''template''")
        case True
        then have "tied a b" using nm rn pa by (auto simp: tied_def)
        then show ?thesis
          by (simp add: paired_template1 [OF sn rn pa] paired_template1 [OF sn' rn' True] py_eq_def)
      next
        case False
        then have "\<not> tied a b" using nm rn pa by (auto simp: tied_def)
        then show ?thesis
          by (simp add: paired_template1 [OF sn rn pa] paired_template2 [OF sn' rn' False pa] py_eq_def)
      qed
    next
      case pa: False
      show ?thesis
      proof (cases "poreRead b = ''template''")
        case True
        then have "\<not> tied a b" using nm rn pa by (auto simp: tied_def)
        then show ?thesis
          by (simp add: paired_template2 [OF sn rn pa True] paired_template1 [OF sn' rn' True] py_eq_def)
      next
        case pb: False
        show ?thesis
        proof (cases "poreRead a \<noteq> [] \<or> poreRead b \<noteq> []")
          case True
          then have p': "poreRead b \<noteq> [] \<or> poreRead a \<noteq> []" by auto
          have "\<not> tied a b" using nm rn pa pb True by (auto simp: tied_def)
          then show ?thesis
            by (simp add: paired_pore [OF sn rn pa pb True] paired_pore [OF sn' rn' pb pa p'] py_eq_def)
        next
          case False
          then have ea: "poreRead a = []" and eb: "poreRead b = []" by auto
          show ?thesis
          proof (cases "tagType a \<noteq> [] \<and> tagType b \<noteq> []")
            case True
            then have ta: "tagType a \<noteq> []" and tb: "tagType b \<noteq> []" by auto
            have t: "tied a b \<longleftrightarrow> (tagType a = ''F3'') = (tagType b = ''F3'')"
              using nm rn ea eb True by (auto simp: tied_def)
            show ?thesis
              by (auto simp: paired_tag [OF sn rn ea eb ta tb] paired_tag [OF sn' rn' eb ea tb ta]
                  t py_eq_def)
          next
            case tg: False
            then have tg': "\<not> (tagType b \<noteq> [] \<and> tagType a \<noteq> [])" by auto
            have t: "tied a b \<longleftrightarrow> deflineString a = deflineString b"
              using nm rn ea eb tg by (auto simp: tied_def)
            show ?thesis
              using str_less_total [of "deflineString a" "deflineString b"]
                str_less_asym [of "deflineString a" "deflineString b"]
                str_less_asym [of "deflineString b" "deflineString a"]
                str_less_irrefl [of "deflineString a"]
              by (auto simp: paired_string [OF sn rn ea eb tg] paired_string [OF sn' rn' eb ea tg']
                  t py_eq_def)
          qed
        qed
      qed
    qed
  qed
qed


theorem C2_witness:
  "\<not> tied (parsedDefline ''@r1/1'') (parsedDefline ''@r1/2'') \<and>
   py_eq (isPairedDeflines (parsedDefline ''@r1/1'') (parsedDefline ''@r1/2'') False) 1 \<and>
   py_eq (isPairedDeflines (parsedDefline ''@r1/2'') (parsedDefline ''@r1/1'') False) 2"
proof -
  have nt: "\<not> tied (parsedDefline ''@r1/1'') (parsedDefline ''@r1/2'')"
    by code_simp
  have one: "py_eq (isPairedDeflines (parsedDefline ''@r1/1'') (parsedDefline ''@r1/2'') False) 1"
    by code_simp
  show ?thesis
    using C2_pairing_symmetry_unless_tied [of "parsedDefline ''@r1/1''" "parsedDefline ''@r1/2''"]
      nt one by simp
qed

subsection \<open>Numeric quality out of range\<close>

lemma decimal_not_space: "is_decimal c \<Longrightarrow> \<not> py_isspace c"
  by (auto simp: is_decimal_def py_isspace_def Let_def)

lemma decimal_is_digit: "is_decimal c \<Longrightarrow> is_digit_char c"
  by (auto simp: is_decimal_def is_digit_char_def Let_def)

lemma sign_not_space: "c = CHR ''-'' \<or> c = CHR ''+'' \<Longrightarrow> \<not> py_isspace c"
  by (auto simp: py_isspace_def ord_def Let_def)

lemma sign_not_decimal: "c = CHR ''-'' \<or> c = CHR ''+'' \<Longrightarrow> \<not> is_decimal c"
  by (auto simp: is_decimal_def ord_def Let_def)

lemma strip_no_space: "list_all (\<lambda>c. \<not> py_isspace c) t \<Longrightarrow> py_strip t = t"
proof (cases t)
  case Nil
  then show ?thesis by (simp add: py_strip_def)
next
  case (Cons c r)
  assume a: "list_all (\<lambda>c. \<not> py_isspace c) t"
  then have "dropWhile py_isspace t = t" using Cons by simp
  moreover have "dropWhile py_isspace (rev t) = rev t"
    using a by (cases "rev t") (auto simp: list_all_iff dest: arg_cong [where f = set])
  ultimately show ?thesis by (simp add: py_strip_def)
qed

lemma signedInteger_no_space: "signedInteger t \<Longrightarrow> list_all (\<lambda>c. \<not> py_isspace c) t"
  by (cases t) (auto simp: signedInteger_def list_all_iff decimal_not_space sign_not_space split: if_splits)

lemma signedInteger_isInt: "signedInteger t \<Longrightarrow> isInt t"
  by (cases t) (auto simp: signedInteger_def isInt_def py_isdigit_def list_all_iff decimal_is_digit split: if_splits)

lemma signedInteger_py_int: "signedInteger t \<Longrightarrow> py_int t = Inr (tokenValue t)"
proof -
  assume s: "signedInteger t"
  then have st: "py_strip t = t" by (simp add: strip_no_space signedInteger_no_space)
  from s have "\<exists>v. py_int t = Inr v"
    unfolding py_int_def st
    by (cases t) (auto simp: signedInteger_def Let_def sign_not_decimal split: if_splits)
  then show ?thesis by (auto simp: tokenValue_def)
qed

lemma numQualLoop_result:
  "list_all signedInteger ts \<Longrightarrow> maxQual_Q q \<le> 100 \<Longrightarrow>
   (if \<exists>t\<in>set ts. 100 < tokenValue t then numQualLoop q ts = Inl tooHigh
    else \<exists>q'. numQualLoop q ts = Inr q')"
proof (induction ts arbitrary: q)
  case Nil
  then show ?case by simp
next
  case (Cons t ts)
  then have si: "signedInteger t" and rest: "list_all signedInteger ts" by auto
  let ?v = "tokenValue t"
  let ?q1 = "if ?v < minQual_Q q then q\<lparr>minQual_Q := ?v\<rparr> else q"
  let ?q2 = "if maxQual_Q ?q1 < ?v then ?q1\<lparr>maxQual_Q := ?v\<rparr> else ?q1"
  let ?q3 = "?q2\<lparr>length_Q := length_Q ?q2 + 1\<rparr>"
  have mx: "maxQual_Q ?q3 = max (maxQual_Q q) ?v" by auto
  have step: "numQualLoop q (t # ts) = (if 100 < maxQual_Q ?q3 then Inl tooHigh else numQualLoop ?q3 ts)"
    using si by (simp add: signedInteger_isInt signedInteger_py_int Let_def del: numQualLoop.simps(1))
  show ?case
  proof (cases "100 < ?v")
    case True
    then have "100 < maxQual_Q ?q3" using mx by linarith
    with True show ?thesis by (simp only: step) auto
  next
    case False
    then have le: "maxQual_Q ?q3 \<le> 100" using mx Cons.prems(2) by linarith
    then have "numQualLoop q (t # ts) = numQualLoop ?q3 ts" by (simp only: step) auto
    moreover note Cons.IH [OF rest le]
    ultimately show ?thesis using False by (auto split: if_splits)
  qed
qed

text \<open>Claim C4, as stated: a quality string parsed in numeric mode aborts the program if and
  only if some value \<open>q\<close> has \<open>|q| > 100\<close>; in particular -150 aborts. The code tests only
  \<open>maxQual > 100\<close>: the string \<open>-150 7\<close> is parsed in numeric mode without an abort, and -150
  becomes \<open>minQual\<close>.\<close>

theorem C4_counterexample:
  "numericMode new_Qual ''-150 7'' \<and>
   py_split (py_strip ''-150 7'') = [''-150'', ''7''] \<and>
   tokenValue ''-150'' = -150 \<and> 100 < \<bar>tokenValue ''-150''\<bar> \<and>
   \<not> isl (parseQual new_Qual ''-150 7'') \<and>
   map_sum id minQual_Q (parseQual new_Qual ''-150 7'') = Inr (-150)"
  by code_simp

text \<open>Claim C4, amended: for every quality string parsed in numeric mode whose
  whitespace-separated tokens are all signed integers, parsing aborts the program if and
  only if some value is greater than 100, and the abort is the exit "Numerical quality is
  too high".\<close>

theorem C4_abort_iff_above_100:
  assumes "numericMode q s" and "list_all signedInteger (py_split (py_strip s))"
  shows "(isl (parseQual q s) \<longleftrightarrow> (\<exists>t\<in>set (py_split (py_strip s)). 100 < tokenValue t)) \<and>
         (isl (parseQual q s) \<longrightarrow> parseQual q s = Inl tooHigh)"
proof -
  let ?q = "q\<lparr>qual_Q := py_strip s, length_Q := 0, isValid_Q := False,
                 minQual_Q := 1000, maxQual_Q := 0, minOrd_Q := 1000, maxOrd_Q := 0\<rparr>"
  have r: "if \<exists>t\<in>set (py_split (py_strip s)). 100 < tokenValue t
           then numQualLoop ?q (py_split (py_strip s)) = Inl tooHigh
           else \<exists>q'. numQualLoop ?q (py_split (py_strip s)) = Inr q'"
    by (rule numQualLoop_result [OF assms(2)]) simp
  show ?thesis
  proof (cases "py_strip s = []")
    case True
    then show ?thesis by (simp add: parseQual_def py_split_def)
  next
    case False
    with assms(1) have "parseQual q s =
        (case numQualLoop ?q (py_split (py_strip s)) of
              Inl e \<Rightarrow> Inl e
            | Inr q1 \<Rightarrow>
                Inr (if length_Q q1 \<noteq> 0 then q1\<lparr>isValid_Q := True, isNumQual_Q := True\<rparr> else q1))"
      by (simp add: parseQual_def numericMode_def Let_def)
    with r show ?thesis by (auto split: if_splits)
  qed
qed


theorem C4_witness:
  "numericMode new_Qual ''30 101'' \<and>
   list_all signedInteger (py_split (py_strip ''30 101'')) \<and>
   (\<exists>t\<in>set (py_split (py_strip ''30 101'')). 100 < tokenValue t) \<and>
   parseQual new_Qual ''30 101'' = Inl tooHigh"
proof -
  have h1: "numericMode new_Qual ''30 101''" by code_simp
  have h2: "list_all signedInteger (py_split (py_strip ''30 101''))" by code_simp
  have h3: "\<exists>t\<in>set (py_split (py_strip ''30 101'')). 100 < tokenValue t" by code_simp
  show ?thesis
    using C4_abort_iff_above_100 [OF h1 h2] h1 h2 h3 by blast
qed

subsection \<open>Nanopore read kinds\<close>

text \<open>Claim C7. Nanopore defline parsing normalizes each of the suffixes \<open>_twodirections\<close>,
  \<open>-2D\<close> and \<open>_2d\<close> to the pore read \<open>2D\<close>. The pattern accepts \<open>_2d\<close>, but the chain that
  normalizes the suffix names only \<open>_twodirections\<close> and \<open>-2D\<close> for \<open>2D\<close>, so \<open>_2d\<close> falls to
  the final \<open>else\<close> and is read as \<open>complement\<close>. The theorem parses three first lines of a
  file that differ in the suffix only.\<close>

theorem C7_2d_suffix_read_as_complement:
  "map_sum id (\<lambda>d. (isValid d, deflineType d, poreRead d))
     (parseDeflineString new_defline ''@channel_1_read_2_2d'')
     = Inr (True, Some NANOPORE, ''complement'') \<and>
   map_sum id poreRead (parseDeflineString new_defline ''@channel_1_read_2_twodirections'')
     = Inr ''2D'' \<and>
   map_sum id poreRead (parseDeflineString new_defline ''@channel_1_read_2-2D'') = Inr ''2D''"
  by code_simp

subsection \<open>Nanopore filter flag from the path of the fast5 file\<close>

text \<open>Claim C10. For a Nanopore defline whose \<open>poreFile\<close> path has more than one component,
  \<open>filterRead\<close> is set to 1 when the top-level directory is \<open>fail\<close> and to 0 when it is
  \<open>pass\<close>, and the spot group is the part of the file name in front of \<open>_ch<channel>_\<close>.
  The captured group starts with the colon that separates it from the read name, so the
  first chunk of the split is \<open>:fail\<close>, never \<open>fail\<close>, and the flag stays 0. The theorem
  parses a first line whose fast5 file lies in the directory \<open>fail\<close>.\<close>

theorem C10_fail_directory_not_filtered:
  "poreFileChunks '':fail/x_ch1_file2_strand.fast5'' = ['':fail'', ''x_ch1_file2_strand.fast5''] \<and>
   map_sum id (\<lambda>d. (isValid d, filterRead d, poreFile d, spotGroup d))
     (parseDeflineString new_defline ''@channel_1_read_2-1D:fail/x_ch1_file2_strand.fast5'')
     = Inr (True, PInt 0, Some ''x_ch1_file2_strand.fast5'', Some ''x'')"
  by code_simp

subsection \<open>Resynchronisation at the end of the file\<close>

text \<open>Claim C8. When a line fails to parse as a defline the reader discards lines until one
  parses, and the program terminates fatally if and only if no valid defline is found
  within 1000 discarded lines or before the end of the file. At the end of the file
  \<open>readline\<close> returns the empty string, which \<open>parseDeflineString\<close> accepts, so the test for
  the end of the file in \<open>findValidDefline\<close> is never reached: on a file whose only
  remaining line is \<open>ACGT\<close>, which is no defline, the method returns normally with an
  empty saved defline.\<close>

theorem C8_end_of_file_not_fatal:
  "map_sum id isValid (parseDeflineString new_defline ''ACGT'') = Inr False \<and>
   map_sum id (\<lambda>r. (savedDeflineString r, handle r, isValid (defline_R r)))
     (findValidDefline (new_reader ''f.fq'' (''ACGT'' @ [newline])) False) = Inr ([], [], True)"
  by code_simp

subsection \<open>Repair of a missing quality line\<close>

text \<open>Claim C5. When the quality length differs from the sequence length and the quality
  line parses as a defline, the quality is replaced by \<open>?\<close> repeated \<open>|seq|\<close> times (ASCII) or
  by exactly \<open>|seq|\<close> values of 30 (numeric), and the line is saved as the next defline.
  In numeric mode the code assigns \<open>"30"\<close> and then overwrites it with
  \<open>" 30" * (length - 1)\<close>: one value short. The theorem runs \<open>checkFastqLengths\<close> on the
  reader after the record \<open>@r1 / ACGT / + / @r2\<close>, with numeric quality configured.\<close>

theorem C5_missing_numeric_quality_one_short:
  "map_sum id (\<lambda>(b, f). (b, qual_R f, py_split (qual_R f), savedDeflineString f, lengthQual f))
     (checkFastqLengths (new_writer\<lparr>isNumQual_W := True\<rparr>)
        ((new_reader ''f.fq'' [])\<lparr>defline_R := parsedDefline ''@r1'', seq_R := ''ACGT'',
           qual_R := ''@r2'', length_R := 4, lengthQual := 1\<rparr>))
   = Inr (True, '' 30 30 30'', [''30'', ''30'', ''30''], ''@r2'', 4)"
  by code_simp

subsection \<open>Choice of the quality offset\<close>

lemma setQualityOffset_0:
  "setQualityOffset sw (PInt 0) False =
     Inr (sw\<lparr>offset_W := 0,
            qualityExpression := (if logOdds sw then ''(INSDC:quality:log_odds)QUALITY''
                                  else ''(INSDC:quality:phred)QUALITY''),
            isNumQual_W := True\<rparr>)"
  by (simp add: setQualityOffset_def bind_def)

lemma setQualityOffset_64:
  "setQualityOffset sw (PInt 64) False =
     Inr (sw\<lparr>offset_W := 64,
            qualityExpression := (if logOdds sw then ''(INSDC:quality:text:log_odds_64)QUALITY''
                                  else ''(INSDC:quality:text:phred_64)QUALITY'')\<rparr>)"
  by (simp add: setQualityOffset_def bind_def)

lemma setQualityOffset_33:
  "setQualityOffset sw (PInt 33) False =
     (if logOdds sw then Inl offset33LogOdds else Inr (sw\<lparr>offset_W := 33\<rparr>))"
  by (simp add: setQualityOffset_def bind_def)

lemma choose_numeric:
  "isNumQual_W sw \<Longrightarrow>
   \<exists>sw'. chooseQualityOffset sw = Inr sw' \<and> offset_W sw' = 0 \<and>
         (logOdds sw' \<longleftrightarrow> logOdds sw \<or> clampedMin sw < 0)"
  by (simp add: chooseQualityOffset_def setQualityOffset_0 clampedMin_def Let_def)

lemma choose_64:
  "\<not> isNumQual_W sw \<Longrightarrow> 25 < minQual_W sw \<Longrightarrow> 45 < maxQual_W sw \<Longrightarrow>
   \<exists>sw'. chooseQualityOffset sw = Inr sw' \<and> offset_W sw' = 64 \<and>
         (logOdds sw' \<longleftrightarrow> logOdds sw \<or> minQual_W sw + 33 - 64 < 0)"
  by (simp add: chooseQualityOffset_def setQualityOffset_64 Let_def)

lemma choose_33:
  "\<not> isNumQual_W sw \<Longrightarrow> \<not> (25 < minQual_W sw \<and> 45 < maxQual_W sw) \<Longrightarrow>
   (if logOdds sw then chooseQualityOffset sw = Inl offset33LogOdds
    else \<exists>sw'. chooseQualityOffset sw = Inr sw' \<and> offset_W sw' = 33 \<and> \<not> logOdds sw')"
  by (auto simp: chooseQualityOffset_def setQualityOffset_33)

lemma prescan_cap:
  "countsFrom k passes \<Longrightarrow> 0 \<le> k \<Longrightarrow> k < 100000 \<Longrightarrow>
   prescanSpots sw passes = prescanSpots sw (take (nat (100000 - k)) passes)"
proof (induction passes arbitrary: sw k)
  case Nil
  then show ?case by simp
next
  case (Cons p passes)
  obtain f1 f2 where p: "p = (f1, f2)" by (cases p)
  from Cons.prems have sc: "spotCount_R f1 = k + 1" and cf: "countsFrom (k + 1) passes"
    by (auto simp: p)
  obtain n where n: "nat (100000 - k) = Suc n" and n': "n = nat (100000 - (k + 1))"
    using Cons.prems(2,3) by (cases "nat (100000 - k)") auto
  show ?case
  proof (cases "k + 1 = 100000")
    case True
    then show ?thesis using sc by (simp add: p n split: sum.splits)
  next
    case False
    then have lt: "k + 1 < 100000" and ge: "0 \<le> k + 1" using Cons.prems by auto
    have ih: "\<And>w. prescanSpots w passes = prescanSpots w (take n passes)"
      using Cons.IH [OF cf ge lt] by (simp add: n')
    show ?thesis using sc False by (simp add: p n ih split: sum.splits)
  qed
qed

text \<open>Claim C3, as stated: with no offset on the command line, numeric quality gives offset 0
  with logOdds true iff the minimum (a colour-space -1 counted as 0) is negative, ASCII
  quality with min > 25 and max > 45 gives offset 64 with logOdds true iff
  min + 33 - 64 < 0, and every other ASCII observation gives offset 33 with logOdds false.
  The \<open>logOdds\<close> option sets the flag before the prescan and nothing clears it: with that
  option and no offset, a prescan of the numeric quality line \<open>5 40\<close> ends with offset 0
  and logOdds true although the minimum is 5.\<close>

theorem C3_counterexample:
  "\<not> offsetProvided (new_writer\<lparr>logOdds := True\<rparr>) \<and>
   map_sum id isNumQual_W
     (bind (prescanSpots (new_writer\<lparr>logOdds := True\<rparr>) [(readerAfter ''5 40'' 1, None)])
        chooseQualityOffset) = Inr True \<and>
   map_sum id minQual_W
     (bind (prescanSpots (new_writer\<lparr>logOdds := True\<rparr>) [(readerAfter ''5 40'' 1, None)])
        chooseQualityOffset) = Inr 5 \<and>
   map_sum id offset_W
     (bind (prescanSpots (new_writer\<lparr>logOdds := True\<rparr>) [(readerAfter ''5 40'' 1, None)])
        chooseQualityOffset) = Inr 0 \<and>
   map_sum id logOdds
     (bind (prescanSpots (new_writer\<lparr>logOdds := True\<rparr>) [(readerAfter ''5 40'' 1, None)])
        chooseQualityOffset) = Inr True"
  by code_simp

text \<open>Claim C3, amended: the choice made from the accumulated range is: numeric quality gives
  offset 0, with logOdds true iff it was already set or the minimum (a colour-space -1
  counted as 0) is negative; ASCII quality with min > 25 and max > 45 gives offset 64, with
  logOdds true iff it was already set or min + 33 - 64 < 0; every other ASCII observation
  gives offset 33 with logOdds false, unless logOdds was already set, in which case the
  program exits. The prescan of a file whose first reader counts its spots 1, 2, 3, ... uses
  the first 100000 passes only.\<close>

theorem C3_offset_choice:
  "(isNumQual_W sw \<longrightarrow>
      (\<exists>sw'. chooseQualityOffset sw = Inr sw' \<and> offset_W sw' = 0 \<and>
             (logOdds sw' \<longleftrightarrow> logOdds sw \<or> clampedMin sw < 0))) \<and>
   (\<not> isNumQual_W sw \<and> 25 < minQual_W sw \<and> 45 < maxQual_W sw \<longrightarrow>
      (\<exists>sw'. chooseQualityOffset sw = Inr sw' \<and> offset_W sw' = 64 \<and>
             (logOdds sw' \<longleftrightarrow> logOdds sw \<or> minQual_W sw + 33 - 64 < 0))) \<and>
   (\<not> isNumQual_W sw \<and> \<not> (25 < minQual_W sw \<and> 45 < maxQual_W sw) \<longrightarrow>
      (if logOdds sw then chooseQualityOffset sw = Inl offset33LogOdds
       else \<exists>sw'. chooseQualityOffset sw = Inr sw' \<and> offset_W sw' = 33 \<and> \<not> logOdds sw')) \<and>
   (countsFrom 0 passes \<longrightarrow>
      prescanSpots sw0 passes = prescanSpots sw0 (take 100000 passes))"
  using choose_numeric [of sw] choose_64 [of sw] choose_33 [of sw]
    prescan_cap [of 0 passes sw0]
  by (simp del: One_nat_def)


theorem C3_witness:
  "isNumQual_W (new_writer\<lparr>isNumQual_W := True, minQual_W := -3, maxQual_W := 20\<rparr>) \<and>
   (\<exists>sw'. chooseQualityOffset (new_writer\<lparr>isNumQual_W := True, minQual_W := -3, maxQual_W := 20\<rparr>)
            = Inr sw' \<and> offset_W sw' = 0 \<and> logOdds sw') \<and>
   (\<not> isNumQual_W (new_writer\<lparr>minQual_W := 31, maxQual_W := 71\<rparr>) \<and>
    25 < minQual_W (new_writer\<lparr>minQual_W := 31, maxQual_W := 71\<rparr>) \<and>
    45 < maxQual_W (new_writer\<lparr>minQual_W := 31, maxQual_W := 71\<rparr>)) \<and>
   (\<exists>sw'. chooseQualityOffset (new_writer\<lparr>minQual_W := 31, maxQual_W := 71\<rparr>) = Inr sw' \<and>
          offset_W sw' = 64 \<and> \<not> logOdds sw') \<and>
   (\<not> isNumQual_W (new_writer\<lparr>minQual_W := 0, maxQual_W := 40\<rparr>) \<and>
    \<not> (25 < minQual_W (new_writer\<lparr>minQual_W := 0, maxQual_W := 40\<rparr>) \<and>
       45 < maxQual_W (new_writer\<lparr>minQual_W := 0, maxQual_W := 40\<rparr>))) \<and>
   (\<exists>sw'. chooseQualityOffset (new_writer\<lparr>minQual_W := 0, maxQual_W := 40\<rparr>) = Inr sw' \<and>
          offset_W sw' = 33 \<and> \<not> logOdds sw') \<and>
   countsFrom 0 [(readerAfter ''!!'' 1, None), (readerAfter ''II'' 2, None)] \<and>
   prescanSpots new_writer [(readerAfter ''!!'' 1, None), (readerAfter ''II'' 2, None)] =
     prescanSpots new_writer
       (take 100000 [(readerAfter ''!!'' 1, None), (readerAfter ''II'' 2, None)])"
proof -
  have c: "countsFrom 0 [(readerAfter ''!!'' 1, None), (readerAfter ''II'' 2, None)]"
    by (simp add: readerAfter_def)
  have m: "clampedMin (new_writer\<lparr>isNumQual_W := True, minQual_W := -3, maxQual_W := 20\<rparr>) < 0"
    by (simp add: clampedMin_def new_writer_def)
  show ?thesis
    using c m
      C3_offset_choice [of "new_writer\<lparr>isNumQual_W := True, minQual_W := -3, maxQual_W := 20\<rparr>"
        "[(readerAfter ''!!'' 1, None), (readerAfter ''II'' 2, None)]" new_writer]
      C3_offset_choice [of "new_writer\<lparr>minQual_W := 31, maxQual_W := 71\<rparr>" "[]" new_writer]
      C3_offset_choice [of "new_writer\<lparr>minQual_W := 0, maxQual_W := 40\<rparr>" "[]" new_writer]
    by (simp add: new_writer_def)
qed

subsection \<open>Columns of a two-read spot\<close>

lemma bind_eq_Inr: "(bind m f = Inr y) = (\<exists>x. m = Inr x \<and> f x = Inr y)"
  by (cases m) (auto simp: bind_def)

lemma set_data_eq_Inr:
  "(set_data t c v = Inr t') = (t c \<noteq> None \<and> t' = t(c := Some (Some v)))"
  by (auto simp: set_data_def)

lemma encode_ascii_eq_Inr:
  "(encode_ascii s = Inr b) = (list_all (\<lambda>c. ord c < 128) s \<and> b = s)"
  by (auto simp: encode_ascii_def)

lemma array_I_eq_Inr:
  "(array_I xs = Inr a) = (list_all (\<lambda>x. 0 \<le> x \<and> x < 4294967296) xs \<and> a = ArrayI xs)"
  by (auto simp: array_I_def)

lemma array_B_eq_Inr:
  "(array_B xs = Inr a) = (list_all (\<lambda>x. 0 \<le> x \<and> x < 256) xs \<and> a = ArrayB xs)"
  by (auto simp: array_B_def)

lemma split_acc_space: "split_acc w (a @ CHR '' '' # b) = split_acc w a @ split_acc [] b"
  by (induction a arbitrary: w) (auto simp: py_isspace_def ord_def Let_def)

lemma py_split_space: "py_split (a @ CHR '' '' # b) = py_split a @ py_split b"
  by (simp add: py_split_def split_acc_space)

lemma getNumQualArray_loop_length:
  "getNumQualArray_loop lo ts = Inr vs \<Longrightarrow> length vs = length ts"
  by (induction ts arbitrary: vs) (auto simp: bind_eq_Inr split: if_splits)

lemma setDstQual_result:
  assumes "setDstQual sw q t = Inr t'"
  shows "\<exists>v. t' = t(''QUALITY'' := Some (Some v)) \<and> qualityCount (Some (Some v)) = qualLen sw q \<and>
             (\<not> isNumQual_W sw \<longrightarrow> v = Bytes q)"
proof (cases "isNumQual_W sw")
  case True
  with assms obtain a where a: "getNumQualArray sw q = Inr a"
    and t': "t' = t(''QUALITY'' := Some (Some a))"
    by (auto simp: setDstQual_def bind_eq_Inr set_data_eq_Inr)
  from a obtain vs where vs: "getNumQualArray_loop (logOdds sw) (py_split q) = Inr vs"
    and arr: "a = (if logOdds sw then Arrayb vs else ArrayB vs)"
    by (auto simp: getNumQualArray_def bind_eq_Inr)
  from arr have "qualityCount (Some (Some a)) = length vs"
    by simp
  with getNumQualArray_loop_length [OF vs] True have "qualityCount (Some (Some a)) = qualLen sw q"
    by (simp add: qualLen_def)
  with t' True show ?thesis by blast
next
  case False
  with assms show ?thesis
    by (auto simp: setDstQual_def qualLen_def bind_eq_Inr set_data_eq_Inr encode_ascii_eq_Inr)
qed

lemma qualLen_joined:
  "qualLen sw ((if isNumQual_W sw \<and> q1 \<noteq> [] \<and> q2 \<noteq> [] then q1 @ '' '' else q1) @ q2)
     = qualLen sw q1 + qualLen sw q2"
  by (cases "q1 = []"; cases "q2 = []") (auto simp: qualLen_def py_split_def split_acc_space)

lemma pair_steps:
  assumes ok: "processPairFastqSpot sw fastq1 fastq2 = Inr (sw', fastq1')"
    and col: "readColumn sw = ''READ'' \<or> readColumn sw = ''CSREAD''"
  shows "\<exists>t5. setDstQual sw
            (qual_R (if isNumQual_W sw \<and> qual_R fastq1 \<noteq> [] \<and> qual_R fastq2 \<noteq> []
                     then fastq1\<lparr>qual_R := qual_R fastq1 @ '' ''\<rparr> else fastq1) @ qual_R fastq2)
            t5 = Inr (dst sw') \<and>
          fastq1' = (if isNumQual_W sw \<and> qual_R fastq1 \<noteq> [] \<and> qual_R fastq2 \<noteq> []
                     then fastq1\<lparr>qual_R := qual_R fastq1 @ '' ''\<rparr> else fastq1) \<and>
          t5 (readColumn sw) = Some (Some (Bytes (seq_R fastq1 @ seq_R fastq2))) \<and>
          t5 ''READ_START'' = Some (Some (ArrayI [0, int (length (seq_R fastq1))])) \<and>
          t5 ''READ_LENGTH'' =
            Some (Some (ArrayI [int (length (seq_R fastq1)), int (length (seq_R fastq2))]))"
  using ok col unfolding processPairFastqSpot_def Let_def
  by (auto simp: bind_eq_Inr set_data_eq_Inr encode_ascii_eq_Inr array_I_eq_Inr array_B_eq_Inr
      split: if_splits)


text \<open>What a successful call of \<open>processPairFastqSpot\<close> writes: the read column (\<open>READ\<close>, or
  \<open>CSREAD\<close> for colour space) is \<open>seq1 + seq2\<close>, READ_START is \<open>[0, |seq1|]\<close> and READ_LENGTH
  is \<open>[|seq1|, |seq2|]\<close>. With numeric quality and both quality strings non-empty exactly
  one space is put between them; with ASCII quality the two strings are joined as they
  are. The number of emitted quality values is the sum of the two reads' quality counts:
  the method itself does not compare it with the read lengths.\<close>

lemma processPairFastqSpot_columns:
  assumes ok: "processPairFastqSpot sw fastq1 fastq2 = Inr (sw', fastq1')"
    and col: "readColumn sw = ''READ'' \<or> readColumn sw = ''CSREAD''"
  shows "dst sw' (readColumn sw) = Some (Some (Bytes (seq_R fastq1 @ seq_R fastq2))) \<and>
         dst sw' ''READ_START'' = Some (Some (ArrayI [0, int (length (seq_R fastq1))])) \<and>
         dst sw' ''READ_LENGTH'' =
           Some (Some (ArrayI [int (length (seq_R fastq1)), int (length (seq_R fastq2))])) \<and>
         (isNumQual_W sw \<and> qual_R fastq1 \<noteq> [] \<and> qual_R fastq2 \<noteq> [] \<longrightarrow>
            qual_R fastq1' = qual_R fastq1 @ '' '' \<and>
            length (qual_R fastq1' @ qual_R fastq2) =
              length (qual_R fastq1) + length (qual_R fastq2) + 1) \<and>
         (\<not> isNumQual_W sw \<longrightarrow>
            dst sw' ''QUALITY'' = Some (Some (Bytes (qual_R fastq1 @ qual_R fastq2)))) \<and>
         qualityCount (dst sw' ''QUALITY'') =
           qualLen sw (qual_R fastq1) + qualLen sw (qual_R fastq2)"
proof -
  let ?f1 = "if isNumQual_W sw \<and> qual_R fastq1 \<noteq> [] \<and> qual_R fastq2 \<noteq> []
             then fastq1\<lparr>qual_R := qual_R fastq1 @ '' ''\<rparr> else fastq1"
  from pair_steps [OF ok col] obtain t5 where
    q: "setDstQual sw (qual_R ?f1 @ qual_R fastq2) t5 = Inr (dst sw')" and
    f1': "fastq1' = ?f1" and
    rd5: "t5 (readColumn sw) = Some (Some (Bytes (seq_R fastq1 @ seq_R fastq2)))" and
    st5: "t5 ''READ_START'' = Some (Some (ArrayI [0, int (length (seq_R fastq1))]))" and
    ln5: "t5 ''READ_LENGTH'' =
            Some (Some (ArrayI [int (length (seq_R fastq1)), int (length (seq_R fastq2))]))"
    by blast
  from setDstQual_result [OF q] obtain v where
    t6: "dst sw' = t5(''QUALITY'' := Some (Some v))" and
    cnt: "qualityCount (Some (Some v)) = qualLen sw (qual_R ?f1 @ qual_R fastq2)" and
    asc: "\<not> isNumQual_W sw \<longrightarrow> v = Bytes (qual_R ?f1 @ qual_R fastq2)"
    by blast
  have qsum: "qualLen sw (qual_R ?f1 @ qual_R fastq2)
              = qualLen sw (qual_R fastq1) + qualLen sw (qual_R fastq2)"
  proof (cases "isNumQual_W sw \<and> qual_R fastq1 \<noteq> [] \<and> qual_R fastq2 \<noteq> []")
    case True
    then show ?thesis using qualLen_joined [of sw "qual_R fastq1" "qual_R fastq2"] by simp
  next
    case False
    then show ?thesis using qualLen_joined [of sw "qual_R fastq1" "qual_R fastq2"] by auto
  qed
  have rd: "dst sw' (readColumn sw) = Some (Some (Bytes (seq_R fastq1 @ seq_R fastq2)))"
    using col rd5 by (auto simp: t6)
  have st: "dst sw' ''READ_START'' = Some (Some (ArrayI [0, int (length (seq_R fastq1))]))"
    using st5 by (simp add: t6)
  have ln: "dst sw' ''READ_LENGTH'' =
      Some (Some (ArrayI [int (length (seq_R fastq1)), int (length (seq_R fastq2))]))"
    using ln5 by (simp add: t6)
  have ql: "dst sw' ''QUALITY'' = Some (Some v)" by (simp add: t6)
  have num: "isNumQual_W sw \<and> qual_R fastq1 \<noteq> [] \<and> qual_R fastq2 \<noteq> [] \<longrightarrow>
            qual_R fastq1' = qual_R fastq1 @ '' '' \<and>
            length (qual_R fastq1' @ qual_R fastq2) =
              length (qual_R fastq1) + length (qual_R fastq2) + 1"
    by (simp add: f1')
  have ascq: "\<not> isNumQual_W sw \<longrightarrow>
            dst sw' ''QUALITY'' = Some (Some (Bytes (qual_R fastq1 @ qual_R fastq2)))"
    using asc by (simp add: ql)
  have c: "qualityCount (dst sw' ''QUALITY'') =
           qualLen sw (qual_R fastq1) + qualLen sw (qual_R fastq2)"
    using cnt qsum by (simp only: ql)
  from rd st ln num ascq c show ?thesis by simp
qed


text \<open>Claim C1. For every two-read spot emitted through \<open>processPairFastqSpot\<close>, READ_START is
  \<open>[0, |seq1|]\<close>, READ_LENGTH is \<open>[|seq1|, |seq2|]\<close>, READ is \<open>seq1 + seq2\<close>, and with numeric
  quality one space joins the two quality strings, so that the number of emitted quality
  values is the sum of the two read lengths. The main loop passes each reader through
  \<open>checkFastqLengths\<close> and then writes the spot. The theorem runs these steps with numeric
  quality on the pair whose first record \<open>@r1 / ACGT / + / @r2\<close> lacks its quality line and
  whose second record is \<open>@r1 / ACGT / + / 31 32 33 34\<close>: the repair of the first read
  leaves three values of 30, and the spot is written with READ_LENGTH \<open>[4, 4]\<close> and seven
  quality values.\<close>

theorem C1_quality_count_short_of_read_lengths:
  "map_sum id
     (\<lambda>(sw', f1'). (dst sw' ''READ'', dst sw' ''READ_START'', dst sw' ''READ_LENGTH'',
                    qual_R f1', dst sw' ''QUALITY'', qualityCount (dst sw' ''QUALITY'')))
     (bind (checkFastqLengths (new_writer\<lparr>isNumQual_W := True\<rparr>)
              ((new_reader ''f.fq'' [])\<lparr>defline_R := parsedDefline ''@r1'', seq_R := ''ACGT'',
                 qual_R := ''@r2'', length_R := 4, lengthQual := 1\<rparr>))
        (\<lambda>(changed1, fastq1).
           bind (checkFastqLengths (new_writer\<lparr>isNumQual_W := True\<rparr>)
                   ((pairReader ''ACGT'' ''31 32 33 34'')\<lparr>length_R := 4, lengthQual := 4\<rparr>))
             (\<lambda>(changed2, fastq2).
                processPairFastqSpot (new_writer\<lparr>isNumQual_W := True\<rparr>) fastq1 fastq2)))
   = Inr (Some (Some (Bytes ''ACGTACGT'')), Some (Some (ArrayI [0, 4])),
          Some (Some (ArrayI [4, 4])), '' 30 30 30 '',
          Some (Some (ArrayB [30, 30, 30, 31, 32, 33, 34])), 7)"
  by code_simp

subsection \<open>Spot group \<open>0\<close>\<close>

text \<open>What each branch of the cascade does to the latched type of a valid defline, and, for the
  three branches that test it, that the spot group they store is never \<open>0\<close>.\<close>

lemma latch_type_simps [simp]:
  "deflineType (latch k p d) = (if deflineType d = None \<and> saveDeflineType d then Some k else deflineType d)"
  "isValid (latch k p d) = isValid d" "spotGroup (latch k p d) = spotGroup d"
  "deflineType (latch_type k d) = (if deflineType d = None \<and> saveDeflineType d then Some k else deflineType d)"
  "isValid (latch_type k d) = isValid d" "spotGroup (latch_type k d) = spotGroup d"
  by (simp_all add: latch_def latch_type_def)































end
